theory Spec2Isabelle
  imports Complex_Main
begin

section \<open>Python values\<close>

text \<open>
  The bot is a Python program. Strings are modelled as HOL strings (\<open>len\<close> is
  \<open>length\<close>, \<open>s[:n]\<close> is \<open>take n s\<close>, \<open>+\<close> is \<open>@\<close>), Python's unbounded
  integers as \<open>int\<close>. A value decoded from a JSON body or a YAML file is a \<open>json\<close>
  value; a dictionary is an association list in insertion order, looked up with
  \<open>map_of\<close>. Mappings loaded from YAML are taken to have string keys, as the
  stream-info document has.
\<close>

datatype pyfloat = FloatVal rat | FloatInf | FloatNegInf | FloatNaN

datatype json =
    JNull
  | JBool bool
  | JInt int
  | JFloat pyfloat
  | JStr string
  | JList "json list"
  | JDict "(string \<times> json) list"

text \<open>
  An exception is its class name and the text \<open>str(e)\<close> gives; the exceptions
  are those \<open>except Exception\<close> catches. The texts of the exceptions the
  interpreter raises follow CPython's wording; the code only ever copies them into
  a message. The \<open>print\<close> calls of the code write to the console and are left
  out, and an \<open>await\<close>ed call is a call.
\<close>

datatype exn = Exn string string

fun exn_str :: "exn \<Rightarrow> string" where
  "exn_str (Exn kind text) = text"

definition bindE :: "exn + 'a \<Rightarrow> ('a \<Rightarrow> exn + 'b) \<Rightarrow> exn + 'b" where
  "bindE m f = (case m of Inl e \<Rightarrow> Inl e | Inr x \<Rightarrow> f x)"

text \<open>Truth value testing (\<open>if v\<close>, \<open>not v\<close>).\<close>

fun truthy :: "json \<Rightarrow> bool" where
  "truthy JNull = False"
| "truthy (JBool b) = b"
| "truthy (JInt i) = (i \<noteq> 0)"
| "truthy (JFloat f) = (f \<noteq> FloatVal 0)"
| "truthy (JStr s) = (s \<noteq> [])"
| "truthy (JList xs) = (xs \<noteq> [])"
| "truthy (JDict d) = (d \<noteq> [])"

fun type_name :: "json \<Rightarrow> string" where
  "type_name JNull = ''NoneType''"
| "type_name (JBool b) = ''bool''"
| "type_name (JInt i) = ''int''"
| "type_name (JFloat f) = ''float''"
| "type_name (JStr s) = ''str''"
| "type_name (JList xs) = ''list''"
| "type_name (JDict d) = ''dict''"

text \<open>\<open>k in s\<close> on two strings: \<open>k\<close> occurs in \<open>s\<close> as a contiguous run.\<close>

fun substring :: "string \<Rightarrow> string \<Rightarrow> bool" where
  "substring k [] = (k = [])"
| "substring k (c # cs) = (take (length k) (c # cs) = k \<or> substring k cs)"

text \<open>\<open>v[key]\<close> with a string key: only a dictionary can answer.\<close>

fun getitem :: "json \<Rightarrow> string \<Rightarrow> exn + json" where
  "getitem (JDict d) k =
     (case map_of d k of
        None \<Rightarrow> Inl (Exn ''KeyError'' ([CHR 0x27] @ k @ [CHR 0x27]))
      | Some v \<Rightarrow> Inr v)"
| "getitem (JList xs) k =
     Inl (Exn ''TypeError'' ''list indices must be integers or slices, not str'')"
| "getitem (JStr s) k =
     Inl (Exn ''TypeError'' ''string indices must be integers'')"
| "getitem v k =
     Inl (Exn ''TypeError'' ([CHR 0x27] @ type_name v @ [CHR 0x27] @ '' object is not subscriptable''))"

text \<open>\<open>v[0]\<close>.\<close>

fun getitem0 :: "json \<Rightarrow> exn + json" where
  "getitem0 (JList xs) =
     (case xs of
        [] \<Rightarrow> Inl (Exn ''IndexError'' ''list index out of range'')
      | x # rest \<Rightarrow> Inr x)"
| "getitem0 (JStr s) =
     (case s of
        [] \<Rightarrow> Inl (Exn ''IndexError'' ''string index out of range'')
      | c # rest \<Rightarrow> Inr (JStr [c]))"
| "getitem0 (JDict d) = Inl (Exn ''KeyError'' ''0'')"
| "getitem0 v =
     Inl (Exn ''TypeError'' ([CHR 0x27] @ type_name v @ [CHR 0x27] @ '' object is not subscriptable''))"

text \<open>\<open>k in v\<close> with a string \<open>k\<close>.\<close>

fun py_contains :: "string \<Rightarrow> json \<Rightarrow> exn + bool" where
  "py_contains k (JDict d) = Inr (k \<in> set (map fst d))"
| "py_contains k (JList xs) = Inr (JStr k \<in> set xs)"
| "py_contains k (JStr s) = Inr (substring k s)"
| "py_contains k v =
     Inl (Exn ''TypeError'' (''argument of type '' @ [CHR 0x27] @ type_name v @ [CHR 0x27] @ '' is not iterable''))"

text \<open>\<open>v.get(key, default)\<close>: a method of dictionaries only.\<close>

fun py_get :: "json \<Rightarrow> string \<Rightarrow> json \<Rightarrow> exn + json" where
  "py_get (JDict d) k dflt = Inr (case map_of d k of None \<Rightarrow> dflt | Some v \<Rightarrow> v)"
| "py_get v k dflt =
     Inl (Exn ''AttributeError'' ([CHR 0x27] @ type_name v @ [CHR 0x27] @ '' object has no attribute '' @ [CHR 0x27] @ ''get'' @ [CHR 0x27]))"

text \<open>\<open>v[:5]\<close>: lists and strings are sliced, nothing else is.\<close>

fun slice5 :: "json \<Rightarrow> exn + json" where
  "slice5 (JList xs) = Inr (JList (take 5 xs))"
| "slice5 (JStr s) = Inr (JStr (take 5 s))"
| "slice5 (JDict d) = Inl (Exn ''TypeError'' ''unhashable type: slice'')"
| "slice5 v =
     Inl (Exn ''TypeError'' ([CHR 0x27] @ type_name v @ [CHR 0x27] @ '' object is not subscriptable''))"

text \<open>
  \<open>str.lower\<close>, on the code points below 256: the ASCII capitals and the Latin-1
  capitals (all of 0xC0 to 0xDE but the multiplication sign 0xD7) move up by 32.
\<close>

definition lower_char :: "char \<Rightarrow> char" where
  "lower_char c =
     (let n = of_char c :: nat in
      if (65 \<le> n \<and> n \<le> 90) \<or> (192 \<le> n \<and> n \<le> 222 \<and> n \<noteq> 215)
      then char_of (n + 32) else c)"

definition lower :: "string \<Rightarrow> string" where
  "lower s = map lower_char s"

text \<open>\<open>s.lstrip('#')\<close>.\<close>

definition lstrip_hash :: "string \<Rightarrow> string" where
  "lstrip_hash s = dropWhile (\<lambda>c. c = CHR ''#'') s"

text \<open>\<open>str(n)\<close> for an integer.\<close>

fun digit_char :: "nat \<Rightarrow> char" where
  "digit_char d = char_of (48 + d)"

fun str_nat :: "nat \<Rightarrow> string" where
  "str_nat n = (if n < 10 then [digit_char n] else str_nat (n div 10) @ [digit_char (n mod 10)])"

declare str_nat.simps [simp del]

definition str_int :: "int \<Rightarrow> string" where
  "str_int i = (if i < 0 then CHR ''-'' # str_nat (nat (- i)) else str_nat (nat i))"

section \<open>config.py: the recent-event logs\<close>

text \<open>
  \<open>recent_events\<close> is a module-level dictionary of two lists. Each function appends
  one entry and then drops the first one (\<open>pop(0)\<close>) when the list has grown past
  ten. \<open>datetime.now()\<close> is read by the caller's clock: the model takes it as the
  argument \<open>now\<close>.
\<close>

record subscriber_entry =
  sub_username :: string
  sub_tier :: "string option"
  sub_months :: "int option"
  sub_message :: "string option"
  sub_timestamp :: nat

record raider_entry =
  raid_username :: string
  raid_viewers :: int
  raid_timestamp :: nat

record recent_events =
  subscribers :: "subscriber_entry list"
  raiders :: "raider_entry list"

definition initial_events :: recent_events where
  "initial_events = \<lparr>subscribers = [], raiders = []\<rparr>"

text \<open>\<open>xs.pop(0)\<close> as a statement, on a list known to be non-empty.\<close>

definition pop0 :: "'a list \<Rightarrow> 'a list" where
  "pop0 xs = drop 1 xs"

definition add_subscriber ::
  "nat \<Rightarrow> string \<Rightarrow> string option \<Rightarrow> int option \<Rightarrow> string option \<Rightarrow> recent_events \<Rightarrow> recent_events" where
  "add_subscriber now username tier months message ev =
     (let appended = subscribers ev @
            [\<lparr>sub_username = username, sub_tier = tier, sub_months = months,
              sub_message = message, sub_timestamp = now\<rparr>]
      in ev\<lparr>subscribers := (if length appended > 10 then pop0 appended else appended)\<rparr>)"

definition add_raider :: "nat \<Rightarrow> string \<Rightarrow> int \<Rightarrow> recent_events \<Rightarrow> recent_events" where
  "add_raider now username viewers ev =
     (let appended = raiders ev @
            [\<lparr>raid_username = username, raid_viewers = viewers, raid_timestamp = now\<rparr>]
      in ev\<lparr>raiders := (if length appended > 10 then pop0 appended else appended)\<rparr>)"

text \<open>A sequence of calls, to state what holds after any number of them.\<close>

datatype log_call =
    AddSubscriber nat string "string option" "int option" "string option"
  | AddRaider nat string int

fun apply_call :: "log_call \<Rightarrow> recent_events \<Rightarrow> recent_events" where
  "apply_call (AddSubscriber now u t m msg) ev = add_subscriber now u t m msg ev"
| "apply_call (AddRaider now u v) ev = add_raider now u v ev"

fun run_calls :: "log_call list \<Rightarrow> recent_events \<Rightarrow> recent_events" where
  "run_calls [] ev = ev"
| "run_calls (c # cs) ev = run_calls cs (apply_call c ev)"

definition capped :: "recent_events \<Rightarrow> bool" where
  "capped ev \<longleftrightarrow> length (subscribers ev) \<le> 10 \<and> length (raiders ev) \<le> 10"


section \<open>tools.py: the lookup tools\<close>

subsection \<open>Settings, requests and responses\<close>

text \<open>
  The settings \<open>config.py\<close> reads from the environment: \<open>os.getenv\<close> gives
  \<open>None\<close> for a variable that is not set, and \<open>STREAM_INFO_FILE\<close> has a default.
\<close>

record config =
  REBRICKABLE_API_KEY :: "string option"
  TWITCH_CLIENT_ID :: "string option"
  TWITCH_CLIENT_SECRET :: "string option"
  TWITCH_CHANNEL :: "string option"
  STREAM_INFO_FILE :: string

definition REBRICKABLE_BASE_URL :: string where
  "REBRICKABLE_BASE_URL = ''https://rebrickable.com/api/v3''"

definition env_json :: "string option \<Rightarrow> json" where
  "env_json v = (case v of None \<Rightarrow> JNull | Some s \<Rightarrow> JStr s)"

text \<open>
  A request as the code builds it. A text built by an f-string is kept as its
  pieces: the literal parts and the values formatted into it.
\<close>

datatype piece = Lit string | Val json

record request =
  http_method :: string
  url :: "piece list"
  headers :: "(string \<times> piece list) list"
  params :: "(string \<times> json) list"

text \<open>
  What the \<open>requests\<close> library hands back: the status line, the address the
  answer came from, and what \<open>response.json()\<close> gives (the decoded body, or the
  exception it raises on a body that is not JSON).
\<close>

record response =
  status_code :: nat
  reason :: string
  response_url :: string
  json_body :: "exn + json"

definition raise_for_status :: "response \<Rightarrow> exn + unit" where
  "raise_for_status r =
     (if 400 \<le> status_code r \<and> status_code r < 500
      then Inl (Exn ''HTTPError''
             (str_nat (status_code r) @ '' Client Error: '' @ reason r @ '' for url: '' @ response_url r))
      else if 500 \<le> status_code r \<and> status_code r < 600
      then Inl (Exn ''HTTPError''
             (str_nat (status_code r) @ '' Server Error: '' @ reason r @ '' for url: '' @ response_url r))
      else Inr ())"

text \<open>
  The services are outside the program. A call either raises (a transport error) or
  answers, and it may change the world \<open>'w\<close> it runs in, so that the same request
  can be answered differently the next time. A computation that may raise and that
  uses the world has type \<open>('a, 'w) io\<close>.
\<close>

type_synonym ('a, 'w) io = "'w \<Rightarrow> (exn + 'a) \<times> 'w"

type_synonym 'w http = "request \<Rightarrow> (response, 'w) io"

definition bind_io :: "('a, 'w) io \<Rightarrow> ('a \<Rightarrow> ('b, 'w) io) \<Rightarrow> ('b, 'w) io" where
  "bind_io m f = (\<lambda>w. case m w of (Inl e, w') \<Rightarrow> (Inl e, w') | (Inr x, w') \<Rightarrow> f x w')"

definition lift_io :: "exn + 'a \<Rightarrow> ('a, 'w) io" where
  "lift_io r = (\<lambda>w. (r, w))"

text \<open>
  The three lines every lookup repeats: send the request, \<open>raise_for_status()\<close>,
  \<open>.json()\<close>.
\<close>

definition fetch_json :: "'w http \<Rightarrow> request \<Rightarrow> (json, 'w) io" where
  "fetch_json http req =
     bind_io (http req)
       (\<lambda>response. lift_io (bindE (raise_for_status response) (\<lambda>u. json_body response)))"

definition error_result :: "string \<Rightarrow> json" where
  "error_result text = JDict [(''error'', JStr text)]"

subsection \<open>get_lego_set_info\<close>

definition lego_set_request :: "config \<Rightarrow> string \<Rightarrow> request" where
  "lego_set_request cfg set_num =
     \<lparr>http_method = ''GET'',
      url = [Lit REBRICKABLE_BASE_URL, Lit ''/lego/sets/'', Lit set_num, Lit ''/''],
      headers = [(''Authorization'', [Lit ''key '', Val (env_json (REBRICKABLE_API_KEY cfg))])],
      params = []\<rparr>"

definition get_lego_set_info :: "config \<Rightarrow> 'w http \<Rightarrow> string \<Rightarrow> 'w \<Rightarrow> json \<times> 'w" where
  "get_lego_set_info cfg http set_num w =
     (case fetch_json http (lego_set_request cfg set_num) w of
        (Inr found, w') \<Rightarrow> (found, w')
      | (Inl e, w') \<Rightarrow>
          (error_result (''Could not find information for set '' @ set_num), w'))"

subsection \<open>search_lego_sets\<close>

definition lego_search_request :: "config \<Rightarrow> string \<Rightarrow> request" where
  "lego_search_request cfg query =
     \<lparr>http_method = ''GET'',
      url = [Lit REBRICKABLE_BASE_URL, Lit ''/lego/sets/''],
      headers = [(''Authorization'', [Lit ''key '', Val (env_json (REBRICKABLE_API_KEY cfg))])],
      params = [(''search'', JStr query)]\<rparr>"

definition search_lego_sets :: "config \<Rightarrow> 'w http \<Rightarrow> string \<Rightarrow> 'w \<Rightarrow> json \<times> 'w" where
  "search_lego_sets cfg http query w =
     (case bind_io (fetch_json http (lego_search_request cfg query))
             (\<lambda>decoded. lift_io (bindE (py_get decoded ''results'' (JList [])) slice5)) w of
        (Inr results, w') \<Rightarrow> (results, w')
      | (Inl e, w') \<Rightarrow>
          (error_result (''Could not find any sets matching '' @ [CHR 0x27] @ query @ [CHR 0x27]), w'))"

subsection \<open>get_twitch_user_info\<close>

text \<open>Step 1: an app access token.\<close>

definition token_request :: "config \<Rightarrow> request" where
  "token_request cfg =
     \<lparr>http_method = ''POST'',
      url = [Lit ''https://id.twitch.tv/oauth2/token''],
      headers = [],
      params = [(''client_id'', env_json (TWITCH_CLIENT_ID cfg)),
                (''client_secret'', env_json (TWITCH_CLIENT_SECRET cfg)),
                (''grant_type'', JStr ''client_credentials'')]\<rparr>"

definition get_access_token :: "config \<Rightarrow> 'w http \<Rightarrow> (json, 'w) io" where
  "get_access_token cfg http =
     bind_io (fetch_json http (token_request cfg))
       (\<lambda>decoded. lift_io (getitem decoded ''access_token''))"

definition twitch_headers :: "config \<Rightarrow> json \<Rightarrow> (string \<times> piece list) list" where
  "twitch_headers cfg access_token =
     [(''Client-ID'', [Val (env_json (TWITCH_CLIENT_ID cfg))]),
      (''Authorization'', [Lit ''Bearer '', Val access_token])]"

text \<open>
  Step 2: the user behind the name. \<open>None\<close> is the early return for a name Twitch
  does not know; otherwise the user's id and the user's record.
\<close>

definition users_request :: "(string \<times> piece list) list \<Rightarrow> string \<Rightarrow> request" where
  "users_request hdrs login =
     \<lparr>http_method = ''GET'',
      url = [Lit ''https://api.twitch.tv/helix/users''],
      headers = hdrs,
      params = [(''login'', JStr login)]\<rparr>"

definition resolve_user ::
  "'w http \<Rightarrow> (string \<times> piece list) list \<Rightarrow> string \<Rightarrow> ((json \<times> json) option, 'w) io" where
  "resolve_user http hdrs username =
     bind_io (fetch_json http (users_request hdrs (lower username)))
       (\<lambda>user_data. lift_io
          (bindE (getitem user_data ''data'')
             (\<lambda>data. if \<not> truthy data then Inr None
                else bindE (getitem0 data)
                  (\<lambda>user_info. bindE (getitem user_info ''id'')
                     (\<lambda>user_id. Inr (Some (user_id, user_info)))))))"

text \<open>Step 3: the user's channel record, or the empty dictionary.\<close>

definition channel_request :: "(string \<times> piece list) list \<Rightarrow> json \<Rightarrow> request" where
  "channel_request hdrs user_id =
     \<lparr>http_method = ''GET'',
      url = [Lit ''https://api.twitch.tv/helix/channels?broadcaster_id='', Val user_id],
      headers = hdrs,
      params = []\<rparr>"

definition fetch_channel ::
  "'w http \<Rightarrow> (string \<times> piece list) list \<Rightarrow> json \<Rightarrow> (json, 'w) io" where
  "fetch_channel http hdrs user_id =
     bind_io (fetch_json http (channel_request hdrs user_id))
       (\<lambda>decoded. lift_io
          (bindE (getitem decoded ''data'')
             (\<lambda>data. if truthy data then getitem0 data else Inr (JDict []))))"

text \<open>
  Step 4: does the user follow the bot's channel? The local variable
  \<open>following_since\<close> is assigned only inside \<open>if broadcaster_data["data"]\<close>: the
  step gives \<open>None\<close> when it was never assigned, and \<open>Some v\<close> when it holds
  \<open>v\<close> (\<open>Some JNull\<close> for Python's \<open>None\<close>).
\<close>

definition follows_request :: "(string \<times> piece list) list \<Rightarrow> json \<Rightarrow> json \<Rightarrow> request" where
  "follows_request hdrs broadcaster_id user_id =
     \<lparr>http_method = ''GET'',
      url = [Lit ''https://api.twitch.tv/helix/channels/followers''],
      headers = hdrs,
      params = [(''broadcaster_id'', broadcaster_id), (''user_id'', user_id)]\<rparr>"

definition read_follow :: "json \<Rightarrow> exn + json option" where
  "read_follow follow_data =
     bindE (py_contains ''data'' follow_data)
       (\<lambda>has_data. if \<not> has_data then Inr (Some JNull)
          else bindE (getitem follow_data ''data'')
            (\<lambda>data. if \<not> truthy data then Inr (Some JNull)
               else bindE (getitem0 data)
                 (\<lambda>follow. bindE (getitem follow ''followed_at'')
                    (\<lambda>followed_at. Inr (Some followed_at)))))"

definition check_follow ::
  "config \<Rightarrow> 'w http \<Rightarrow> (string \<times> piece list) list \<Rightarrow> json \<Rightarrow> (json option, 'w) io" where
  "check_follow cfg http hdrs user_id =
     (case TWITCH_CHANNEL cfg of
        None \<Rightarrow>
          lift_io (Inl (Exn ''AttributeError''
            ([CHR 0x27] @ ''NoneType'' @ [CHR 0x27] @ '' object has no attribute '' @ [CHR 0x27] @ ''lower'' @ [CHR 0x27])))
      | Some channel \<Rightarrow>
          bind_io (fetch_json http (users_request hdrs (lstrip_hash (lower channel))))
            (\<lambda>broadcaster_data. bind_io (lift_io (getitem broadcaster_data ''data''))
               (\<lambda>data. if \<not> truthy data then lift_io (Inr None)
                  else bind_io (lift_io (bindE (getitem0 data) (\<lambda>b. getitem b ''id'')))
                    (\<lambda>broadcaster_id.
                       bind_io (fetch_json http (follows_request hdrs broadcaster_id user_id))
                         (\<lambda>follow_data. lift_io (read_follow follow_data))))))"

text \<open>
  The result dictionary, its values read in the order of the literal.
  \<open>'following_since' in locals()\<close> asks whether step 4 assigned the variable.
\<close>

definition compile_result :: "json \<Rightarrow> json \<Rightarrow> json \<Rightarrow> json option \<Rightarrow> exn + json" where
  "compile_result user_id user_info channel_data following_since =
     bindE (getitem user_info ''display_name'')
       (\<lambda>display_name. bindE (getitem user_info ''profile_image_url'')
          (\<lambda>profile_image_url. bindE (getitem user_info ''created_at'')
             (\<lambda>created_at. bindE (getitem user_info ''description'')
                (\<lambda>description. bindE (getitem user_info ''broadcaster_type'')
                   (\<lambda>broadcaster_type. Inr (JDict
                      [(''username'', display_name),
                       (''id'', user_id),
                       (''profile_image'', profile_image_url),
                       (''account_created'', created_at),
                       (''description'', description),
                       (''broadcaster_type'', broadcaster_type),
                       (''channel'', channel_data),
                       (''following_since'',
                          (case following_since of None \<Rightarrow> JNull | Some since \<Rightarrow> since)),
                       (''is_following'',
                          JBool (case following_since of None \<Rightarrow> False
                                 | Some since \<Rightarrow> since \<noteq> JNull))]))))))"

definition twitch_lookup :: "config \<Rightarrow> 'w http \<Rightarrow> string \<Rightarrow> (json, 'w) io" where
  "twitch_lookup cfg http username =
     bind_io (get_access_token cfg http)
       (\<lambda>access_token. bind_io (resolve_user http (twitch_headers cfg access_token) username)
          (\<lambda>found. case found of
               None \<Rightarrow>
                 lift_io (Inr (error_result
                   (''User '' @ [CHR 0x27] @ username @ [CHR 0x27] @ '' not found on Twitch'')))
             | Some (user_id, user_info) \<Rightarrow>
                 bind_io (fetch_channel http (twitch_headers cfg access_token) user_id)
                   (\<lambda>channel_data.
                      bind_io (check_follow cfg http (twitch_headers cfg access_token) user_id)
                        (\<lambda>following_since. lift_io
                           (compile_result user_id user_info channel_data following_since)))))"

definition get_twitch_user_info :: "config \<Rightarrow> 'w http \<Rightarrow> string \<Rightarrow> 'w \<Rightarrow> json \<times> 'w" where
  "get_twitch_user_info cfg http username w =
     (case twitch_lookup cfg http username w of
        (Inr result, w') \<Rightarrow> (result, w')
      | (Inl e, w') \<Rightarrow>
          (error_result (''Could not fetch information for user '' @ username @ '': '' @ exn_str e), w'))"

subsection \<open>get_stream_info\<close>

text \<open>
  The file system maps a path to the file there, if there is one. The YAML library
  is outside the program: a file is held as what \<open>yaml.safe_load\<close> makes of it,
  the loaded value or the exception raised on a file that cannot be read or parsed,
  and \<open>yaml.dump\<close> writes a file that loads as the value dumped. (The dump
  writes the keys of a mapping in sorted order; Python compares dictionaries
  without regard to the order of their keys, and the order is not modelled.)
\<close>

datatype stored_file = YamlFile json | BadFile exn

type_synonym filesystem = "string \<Rightarrow> stored_file option"

definition create_default_stream_info :: json where
  "create_default_stream_info = JDict
     [(''current_build'', JDict
         [(''set_number'', JStr ''42115-1''),
          (''name'', JStr (''Lamborghini Si'' @ [CHR 0xE1] @ ''n FKP 37'')),
          (''progress'', JStr ''50% complete''),
          (''started_on'', JStr ''2025-04-01'')]),
      (''schedule'', JDict
         [(''monday'', JStr ''No stream''),
          (''tuesday'', JStr ''7pm-10pm EST''),
          (''wednesday'', JStr ''No stream''),
          (''thursday'', JStr ''7pm-10pm EST''),
          (''friday'', JStr ''8pm-12am EST''),
          (''saturday'', JStr ''3pm-7pm EST''),
          (''sunday'', JStr ''No stream'')]),
      (''upcoming_builds'', JList
         [JDict [(''set_number'', JStr ''75192-1''), (''name'', JStr ''Millennium Falcon''),
                 (''planned_start'', JStr ''April 15, 2025'')],
          JDict [(''set_number'', JStr ''10294-1''), (''name'', JStr ''Titanic''),
                 (''planned_start'', JStr ''May 1, 2025'')]]),
      (''channel_info'', JDict
         [(''description'',
             JStr ''Building Lego sets brick by brick! Join us for relaxing brick building sessions.''),
          (''rules'', JList
             [JStr ''Be kind and respectful'',
              JStr ''No spoilers about build techniques unless asked'',
              JStr ''Have fun and share your love for Lego''])]),
      (''faq'', JList
         [JDict [(''question'', JStr ''What camera do you use?''),
                 (''answer'', JStr ''I use a Sony a6400 for the main shot and a Sony a7III for closeups.'')],
          JDict [(''question'', JStr ''Do you take build requests?''),
                 (''answer'', JStr ''Yes! Subscribers can suggest builds for our community poll.'')],
          JDict [(''question'', JStr ''How long have you been streaming?''),
                 (''answer'', JStr ''I started streaming Lego builds in January 2024.'')]])]"

text \<open>
  The first half of the \<open>try\<close> block: load the file, or write the default
  document and go on with it.
\<close>

definition load_stream_info :: "config \<Rightarrow> filesystem \<Rightarrow> (exn + json) \<times> filesystem" where
  "load_stream_info cfg fs =
     (case fs (STREAM_INFO_FILE cfg) of
        Some (YamlFile stream_info) \<Rightarrow> (Inr stream_info, fs)
      | Some (BadFile e) \<Rightarrow> (Inl e, fs)
      | None \<Rightarrow>
          (Inr create_default_stream_info,
           fs(STREAM_INFO_FILE cfg \<mapsto> YamlFile create_default_stream_info)))"

text \<open>
  The second half. \<open>not category\<close> holds for \<open>None\<close> and for the empty string.
\<close>

definition select_category :: "string option \<Rightarrow> json \<Rightarrow> exn + json" where
  "select_category category stream_info =
     (case category of
        None \<Rightarrow> Inr stream_info
      | Some c \<Rightarrow>
          if c = [] then Inr stream_info
          else bindE (py_contains c stream_info)
            (\<lambda>known. if known
               then bindE (getitem stream_info c) (\<lambda>content. Inr (JDict [(c, content)]))
               else Inr (error_result
                 (''No information found for category '' @ [CHR 0x27] @ c @ [CHR 0x27]))))"

definition get_stream_info :: "config \<Rightarrow> string option \<Rightarrow> filesystem \<Rightarrow> json \<times> filesystem" where
  "get_stream_info cfg category fs =
     (case load_stream_info cfg fs of
        (Inl e, fs') \<Rightarrow>
          (error_result (''Could not retrieve stream information: '' @ exn_str e), fs')
      | (Inr stream_info, fs') \<Rightarrow>
          (case select_category category stream_info of
             Inl e \<Rightarrow>
               (error_result (''Could not retrieve stream information: '' @ exn_str e), fs')
           | Inr result \<Rightarrow> (result, fs')))"

subsection \<open>get_bot_tools\<close>

datatype tool_function =
    Get_lego_set_info | Search_lego_sets | Get_twitch_user_info | Get_stream_info

record tool =
  func :: tool_function
  name :: string
  description :: string
  args_schema :: string
  return_direct :: bool

definition get_bot_tools :: "tool list" where
  "get_bot_tools =
     [\<lparr>func = Get_lego_set_info,
       name = ''get_lego_set_info'',
       description = ''Get detailed information about a specific Lego set by set number'',
       args_schema = ''LegoSetInput'',
       return_direct = False\<rparr>,
      \<lparr>func = Search_lego_sets,
       name = ''search_lego_sets'',
       description = ''Search for Lego sets by name or theme'',
       args_schema = ''LegoSearchInput'',
       return_direct = False\<rparr>,
      \<lparr>func = Get_twitch_user_info,
       name = ''get_twitch_user_info'',
       description = ''Get information about a Twitch user in the context of this channel'',
       args_schema = ''TwitchUserInput'',
       return_direct = False\<rparr>,
      \<lparr>func = Get_stream_info,
       name = ''get_stream_info'',
       description = ''Get information about the stream like schedule, current build, etc.'',
       args_schema = ''StreamInfoInput'',
       return_direct = False\<rparr>]"

section \<open>agents.py: the two dispatchers\<close>

text \<open>
  The agent executor is LangChain's. What the code decides is how each executor is
  configured; the two system messages are long literals no property reads, and
  each is held by name.
\<close>

datatype system_message = Chat_system_message | Event_system_message

datatype prompt_part =
    SystemPart system_message
  | MessagesPlaceholder string
  | HumanPart string

record conversation_buffer_memory =
  return_messages :: bool
  memory_key :: string
  output_key :: string

record agent =
  agent_tools :: "tool list"
  agent_prompt :: "prompt_part list"

record agent_executor =
  executor_agent :: agent
  tools :: "tool list"
  memory :: "conversation_buffer_memory option"
  verbose :: bool
  return_intermediate_steps :: bool
  max_iterations :: nat
  handle_parsing_errors :: bool

definition create_chat_agent :: agent_executor where
  "create_chat_agent =
     (let bot_tools = get_bot_tools;
          prompt = [SystemPart Chat_system_message,
                    MessagesPlaceholder ''chat_history'',
                    HumanPart ''{input}'',
                    MessagesPlaceholder ''agent_scratchpad''];
          buffer = \<lparr>return_messages = True, memory_key = ''chat_history'', output_key = ''output''\<rparr>
      in \<lparr>executor_agent = \<lparr>agent_tools = bot_tools, agent_prompt = prompt\<rparr>,
          tools = bot_tools,
          memory = Some buffer,
          verbose = True,
          return_intermediate_steps = True,
          max_iterations = 3,
          handle_parsing_errors = True\<rparr>)"

definition create_event_agent :: agent_executor where
  "create_event_agent =
     (let bot_tools = drop 3 get_bot_tools;
          prompt = [SystemPart Event_system_message,
                    HumanPart ''{input}'',
                    MessagesPlaceholder ''agent_scratchpad'']
      in \<lparr>executor_agent = \<lparr>agent_tools = bot_tools, agent_prompt = prompt\<rparr>,
          tools = bot_tools,
          memory = None,
          verbose = True,
          return_intermediate_steps = True,
          max_iterations = 2,
          handle_parsing_errors = True\<rparr>)"

text \<open>
  \<open>agent_executor.ainvoke\<close> is a parameter of the two entry points: given the
  executor and the input text it raises or gives a result, of which the code reads
  \<open>result["output"]\<close>.
\<close>

record invoke_result =
  result_output :: string

type_synonym 'w ainvoke = "agent_executor \<Rightarrow> string \<Rightarrow> (invoke_result, 'w) io"

definition process_chat_message :: "'w ainvoke \<Rightarrow> string \<Rightarrow> string \<Rightarrow> 'w \<Rightarrow> string \<times> 'w" where
  "process_chat_message ainvoke username message w =
     (let agent_executor = create_chat_agent;
          formatted_message = username @ '': '' @ message
      in case ainvoke agent_executor formatted_message w of
           (Inr result, w') \<Rightarrow> (result_output result, w')
         | (Inl e, w') \<Rightarrow>
             (''Sorry, I encountered an error while processing your message! Error: '' @ exn_str e, w'))"

text \<open>
  The values of the \<open>details\<close> dictionary are the ones the event handlers pass:
  strings, integers and \<open>None\<close>.
\<close>

datatype detail = DNone | DInt int | DStr string

fun detail_str :: "detail \<Rightarrow> string" where
  "detail_str DNone = ''None''"
| "detail_str (DInt i) = str_int i"
| "detail_str (DStr s) = s"

fun detail_truthy :: "detail \<Rightarrow> bool" where
  "detail_truthy DNone = False"
| "detail_truthy (DInt i) = (i \<noteq> 0)"
| "detail_truthy (DStr s) = (s \<noteq> [])"

definition details_get :: "(string \<times> detail) list \<Rightarrow> string \<Rightarrow> detail \<Rightarrow> detail" where
  "details_get details key dflt = (case map_of details key of None \<Rightarrow> dflt | Some v \<Rightarrow> v)"

definition event_description :: "string \<Rightarrow> string \<Rightarrow> (string \<times> detail) list \<Rightarrow> string" where
  "event_description event_type username details =
     (if event_type = ''subscription''
      then username @ '' has subscribed with tier ''
           @ detail_str (details_get details ''tier'' (DStr ''1000'')) @ ''.''
      else if event_type = ''resub''
      then username @ '' has resubscribed for ''
           @ detail_str (details_get details ''months'' (DInt 1)) @ '' months with tier ''
           @ detail_str (details_get details ''tier'' (DStr ''1000'')) @ ''.''
      else if event_type = ''raid''
      then username @ '' has raided the channel with ''
           @ detail_str (details_get details ''viewers'' (DInt 0)) @ '' viewers.''
      else username @ '' triggered an event of type '' @ event_type @ ''.'')"

definition event_prompt :: "string \<Rightarrow> string \<Rightarrow> (string \<times> detail) list \<Rightarrow> string" where
  "event_prompt event_type username details =
     event_description event_type username details
     @ '' Generate a personalized thank you message for this '' @ event_type
     @ '' event. Make it brief, enthusiastic, and Lego-themed.''"

definition fallback_message :: "string \<Rightarrow> string \<Rightarrow> (string \<times> detail) list \<Rightarrow> string" where
  "fallback_message event_type username details =
     (if event_type = ''raid''
      then ''Thanks for the amazing raid, '' @ username @ '', with ''
           @ detail_str (details_get details ''viewers'' (DInt 0))
           @ '' viewers! Welcome to our brick-building adventure!''
      else if event_type \<in> set [''subscription'', ''resub'']
      then (let months =
                  (if event_type = ''resub'' \<and> detail_truthy (details_get details ''months'' DNone)
                   then detail_str (details_get details ''months'' (DInt 1)) @ ''-month ''
                   else [])
            in ''Thanks for the '' @ months @ ''sub, '' @ username
               @ ''! You're an essential piece in our community!'')
      else ''Thanks, '' @ username @ ''! You're awesome!'')"

definition process_event ::
  "'w ainvoke \<Rightarrow> string \<Rightarrow> string \<Rightarrow> (string \<times> detail) list option \<Rightarrow> 'w \<Rightarrow> string \<times> 'w" where
  "process_event ainvoke event_type username details_arg w =
     (let agent_executor = create_event_agent;
          details = (case details_arg of None \<Rightarrow> [] | Some d \<Rightarrow> d);
          prompt = event_prompt event_type username details
      in case ainvoke agent_executor prompt w of
           (Inr result, w') \<Rightarrow> (result_output result, w')
         | (Inl e, w') \<Rightarrow> (fallback_message event_type username details, w'))"

section \<open>bot.py: the chat and event handlers\<close>

text \<open>
  What the handlers read of a TwitchIO message or event. Each handler gives the
  text it passes to \<open>channel.send\<close> (\<open>event_message\<close> sends nothing for an echo
  or a message that does not name the bot), the logs and the world it leaves.
\<close>

record chat_message =
  echo :: bool
  content :: string
  author_name :: string

record subscribe_event =
  subscriber_name :: string
  sub_plan :: string

record resub_event =
  resubscriber_name :: string
  resub_plan :: string
  cumulative_months :: int
  resub_message :: "string option"

record raid_event =
  raider_name :: string
  viewers :: int

text \<open>
  The two lines before every \<open>send\<close>:
  \<^verbatim>\<open>if len(message) > 500: message = message[:497] + "..."\<close>
\<close>

definition truncate_for_twitch :: "string \<Rightarrow> string" where
  "truncate_for_twitch message =
     (if length message > 500 then take 497 message @ ''...'' else message)"

definition event_message :: "'w ainvoke \<Rightarrow> chat_message \<Rightarrow> 'w \<Rightarrow> string option \<times> 'w" where
  "event_message ainvoke message w =
     (if echo message then (None, w)
      else if substring ''bricknplatebot'' (lower (content message))
      then (case process_chat_message ainvoke (author_name message) (content message) w of
              (response, w') \<Rightarrow> (Some (truncate_for_twitch response), w'))
      else (None, w))"

definition event_subscribe ::
  "'w ainvoke \<Rightarrow> nat \<Rightarrow> subscribe_event \<Rightarrow> recent_events \<Rightarrow> 'w \<Rightarrow> string \<times> recent_events \<times> 'w" where
  "event_subscribe ainvoke now event ev w =
     (let ev' = add_subscriber now (subscriber_name event) (Some (sub_plan event)) None None ev
      in case process_event ainvoke ''subscription'' (subscriber_name event)
                (Some [(''tier'', DStr (sub_plan event))]) w of
           (message, w') \<Rightarrow> (truncate_for_twitch message, ev', w'))"

definition event_resub ::
  "'w ainvoke \<Rightarrow> nat \<Rightarrow> resub_event \<Rightarrow> recent_events \<Rightarrow> 'w \<Rightarrow> string \<times> recent_events \<times> 'w" where
  "event_resub ainvoke now event ev w =
     (let text = (case resub_message event of None \<Rightarrow> [] | Some c \<Rightarrow> c);
          ev' = add_subscriber now (resubscriber_name event) (Some (resub_plan event))
                  (Some (cumulative_months event)) (Some text) ev
      in case process_event ainvoke ''resub'' (resubscriber_name event)
                (Some [(''months'', DInt (cumulative_months event)),
                       (''tier'', DStr (resub_plan event)),
                       (''message'', DStr text)]) w of
           (message, w') \<Rightarrow> (truncate_for_twitch message, ev', w'))"

definition event_raid ::
  "'w ainvoke \<Rightarrow> nat \<Rightarrow> raid_event \<Rightarrow> recent_events \<Rightarrow> 'w \<Rightarrow> string \<times> recent_events \<times> 'w" where
  "event_raid ainvoke now event ev w =
     (let ev' = add_raider now (raider_name event) (viewers event) ev
      in case process_event ainvoke ''raid'' (raider_name event)
                (Some [(''viewers'', DInt (viewers event))]) w of
           (message, w') \<Rightarrow> (truncate_for_twitch message, ev', w'))"

section \<open>The dispatch loop\<close>

text \<open>Modelled from the spec: the loop inside the agent executor, which is LangChain's
  and is not among the source files. The specification (section 4.2) gives its
  protocol: the model either answers or asks for one tool call; the dispatcher runs
  the tool, appends the result to the working context and asks again; a malformed
  call becomes a corrective message; an error of the model or of a tool ends the
  call; when the iteration cap is reached the loop ends with the text at hand.
\<close>

datatype decision = FinalAnswer string | ToolCall string json | MalformedCall string

text \<open>Modelled from the spec: the role-tagged messages of the working context
  (system, human, agent, tool).\<close>

datatype turn =
    SystemTurn system_message
  | HumanTurn string
  | AgentTurn decision
  | ToolTurn json

text \<open>Modelled from the spec: the model call and the execution of a tool, both
  outside the program; either may raise and may change the world.\<close>

type_synonym 'w language_model = "turn list \<Rightarrow> (decision, 'w) io"

type_synonym 'w tool_runner = "tool \<Rightarrow> json \<Rightarrow> (json, 'w) io"

text \<open>Modelled from the spec: what one pass ends in, the end of the call or
  the context for the next pass.\<close>

datatype step_result = Finished "exn + string" | Again "turn list"

text \<open>Modelled from the spec: one pass of the state machine
  \<open>awaiting_model_decision \<rightarrow> {tool_call \<rightarrow> execute_tool \<rightarrow> awaiting_model_decision}
  | final_answer\<close>.
\<close>

definition dispatch_step ::
  "'w language_model \<Rightarrow> 'w tool_runner \<Rightarrow> tool list \<Rightarrow> turn list \<Rightarrow> 'w \<Rightarrow> step_result \<times> 'w" where
  "dispatch_step model run_tool available context w =
     (case model context w of
        (Inl e, w1) \<Rightarrow> (Finished (Inl e), w1)
      | (Inr (FinalAnswer text), w1) \<Rightarrow> (Finished (Inr text), w1)
      | (Inr (MalformedCall raw), w1) \<Rightarrow>
          (Again (context @ [AgentTurn (MalformedCall raw),
                             ToolTurn (JStr ''Invalid or incomplete response'')]), w1)
      | (Inr (ToolCall wanted arg), w1) \<Rightarrow>
          (case find (\<lambda>t. name t = wanted) available of
             None \<Rightarrow>
               (Again (context @ [AgentTurn (ToolCall wanted arg),
                                  ToolTurn (JStr (wanted @ '' is not a valid tool''))]), w1)
           | Some t \<Rightarrow>
               (case run_tool t arg w1 of
                  (Inl e, w2) \<Rightarrow> (Finished (Inl e), w2)
                | (Inr result, w2) \<Rightarrow>
                    (Again (context @ [AgentTurn (ToolCall wanted arg), ToolTurn result]), w2))))"

text \<open>Modelled from the spec: the loop with its hard iteration ceiling. It gives the
  outcome (a final text, or the error that ended the call), the number of passes
  made, and the world. \<open>stop_text\<close> is the text returned when the ceiling is hit.
\<close>

fun dispatch_loop ::
  "'w language_model \<Rightarrow> 'w tool_runner \<Rightarrow> tool list \<Rightarrow> string \<Rightarrow> nat \<Rightarrow> turn list \<Rightarrow> 'w
   \<Rightarrow> (exn + string) \<times> nat \<times> 'w" where
  "dispatch_loop model run_tool available stop_text 0 context w = (Inr stop_text, 0, w)"
| "dispatch_loop model run_tool available stop_text (Suc remaining) context w =
     (case dispatch_step model run_tool available context w of
        (Finished outcome, w1) \<Rightarrow> (outcome, 1, w1)
      | (Again context', w1) \<Rightarrow>
          (case dispatch_loop model run_tool available stop_text remaining context' w1 of
             (outcome, passes, w2) \<Rightarrow> (outcome, Suc passes, w2)))"

text \<open>Modelled from the spec: the context a call starts from. The chat dispatcher
  replays the conversation its memory holds; a dispatcher built without memory
  starts from the system message and the input alone.
\<close>

definition initial_context :: "agent_executor \<Rightarrow> turn list \<Rightarrow> string \<Rightarrow> turn list" where
  "initial_context executor history input =
     concat (map (\<lambda>part. case part of
                      SystemPart s \<Rightarrow> [SystemTurn s]
                    | HumanPart template \<Rightarrow> [HumanTurn input]
                    | MessagesPlaceholder key \<Rightarrow>
                        (case memory executor of
                           None \<Rightarrow> []
                         | Some buffer \<Rightarrow> if key = memory_key buffer then history else []))
            (agent_prompt (executor_agent executor)))"

text \<open>Modelled from the spec: one invocation of a dispatcher, the loop run from the
  initial context with the executor's tools and its iteration cap.
\<close>

definition run_dispatcher ::
  "'w language_model \<Rightarrow> 'w tool_runner \<Rightarrow> string \<Rightarrow> turn list \<Rightarrow> agent_executor \<Rightarrow> string \<Rightarrow> 'w
   \<Rightarrow> (exn + string) \<times> nat \<times> 'w" where
  "run_dispatcher model run_tool stop_text history executor input w =
     dispatch_loop model run_tool (tools executor) stop_text (max_iterations executor)
       (initial_context executor history input) w"

text \<open>Modelled from the spec: \<open>ainvoke\<close> as the dispatch loop, for use as the
  parameter of \<open>process_chat_message\<close> and \<open>process_event\<close>.
\<close>

definition loop_ainvoke ::
  "'w language_model \<Rightarrow> 'w tool_runner \<Rightarrow> string \<Rightarrow> turn list \<Rightarrow> 'w ainvoke" where
  "loop_ainvoke model run_tool stop_text history executor input w =
     (case run_dispatcher model run_tool stop_text history executor input w of
        (Inl e, passes, w') \<Rightarrow> (Inl e, w')
      | (Inr text, passes, w') \<Rightarrow> (Inr \<lparr>result_output = text\<rparr>, w'))"

section \<open>Predicates of the statements\<close>

text \<open>
  The entries a sequence of calls appends to each log, in the order of the calls,
  and the last ten elements of a list.
\<close>

fun subscriber_entries :: "log_call list \<Rightarrow> subscriber_entry list" where
  "subscriber_entries [] = []"
| "subscriber_entries (AddSubscriber now u t m msg # cs) =
     \<lparr>sub_username = u, sub_tier = t, sub_months = m, sub_message = msg, sub_timestamp = now\<rparr>
       # subscriber_entries cs"
| "subscriber_entries (AddRaider now u v # cs) = subscriber_entries cs"

fun raider_entries :: "log_call list \<Rightarrow> raider_entry list" where
  "raider_entries [] = []"
| "raider_entries (AddSubscriber now u t m msg # cs) = raider_entries cs"
| "raider_entries (AddRaider now u v # cs) =
     \<lparr>raid_username = u, raid_viewers = v, raid_timestamp = now\<rparr> # raider_entries cs"

definition last_ten :: "'a list \<Rightarrow> 'a list" where
  "last_ten xs = drop (length xs - 10) xs"

text \<open>
  What the binding does to a reply before sending it: the sent text has at most
  500 characters, a reply of more than 500 is cut to its first 497 followed by
  three dots, and any other reply is sent as it is.
\<close>

definition sent_ok :: "string \<Rightarrow> string \<Rightarrow> bool" where
  "sent_ok reply sent \<longleftrightarrow>
     length sent \<le> 500
     \<and> (500 < length reply \<longrightarrow> sent = take 497 reply @ ''...'')
     \<and> (length reply \<le> 500 \<longrightarrow> sent = reply)"

text \<open>
  A model that asks for a tool call at every step, whatever the context, and a
  tool runner that never raises.
\<close>

definition always_calls_tool :: "'w language_model \<Rightarrow> bool" where
  "always_calls_tool model \<longleftrightarrow>
     (\<forall>ctx w. \<exists>wanted arg w1. model ctx w = (Inr (ToolCall wanted arg), w1))"

definition tools_never_raise :: "'w tool_runner \<Rightarrow> bool" where
  "tools_never_raise run_tool \<longleftrightarrow>
     (\<forall>t arg w. \<exists>result w1. run_tool t arg w = (Inr result, w1))"

text \<open>
  Reading a result: its keys in order, the value under a key, and whether it is
  the failure marker, a mapping whose only key is \<open>error\<close>.
\<close>

definition keys_of :: "json \<Rightarrow> string list" where
  "keys_of r = (case r of JDict d \<Rightarrow> map fst d | _ \<Rightarrow> [])"

definition is_mapping :: "json \<Rightarrow> bool" where
  "is_mapping r = (case r of JDict d \<Rightarrow> True | _ \<Rightarrow> False)"

definition lookup_key :: "json \<Rightarrow> string \<Rightarrow> json option" where
  "lookup_key r k = (case r of JDict d \<Rightarrow> map_of d k | _ \<Rightarrow> None)"

definition error_only :: "json \<Rightarrow> bool" where
  "error_only r \<longleftrightarrow> is_mapping r \<and> keys_of r = [''error'']"

definition nine_keys :: "string list" where
  "nine_keys = [''username'', ''id'', ''profile_image'', ''account_created'', ''description'',
                ''broadcaster_type'', ''channel'', ''following_since'', ''is_following'']"

text \<open>A request that did not go through: a transport error, or a 4xx or 5xx status.\<close>

definition http_failed :: "exn + response \<Rightarrow> bool" where
  "http_failed outcome =
     (case outcome of
        Inl e \<Rightarrow> True
      | Inr r \<Rightarrow> 400 \<le> status_code r \<and> status_code r < 600)"

section \<open>Concrete inputs\<close>

text \<open>Inputs at which the theorems below are instantiated.\<close>

definition ten_calls :: "log_call list" where
  "ten_calls =
     [AddSubscriber 1 ''ann'' (Some ''1000'') None None, AddRaider 1 ''raider1'' 5,
      AddSubscriber 2 ''bob'' (Some ''1000'') None None, AddRaider 2 ''raider2'' 5,
      AddSubscriber 3 ''cat'' (Some ''1000'') None None, AddRaider 3 ''raider3'' 5,
      AddSubscriber 4 ''dan'' (Some ''1000'') None None, AddRaider 4 ''raider4'' 5,
      AddSubscriber 5 ''eve'' (Some ''1000'') None None, AddRaider 5 ''raider5'' 5,
      AddSubscriber 6 ''fay'' (Some ''1000'') None None, AddRaider 6 ''raider6'' 5,
      AddSubscriber 7 ''gus'' (Some ''1000'') None None, AddRaider 7 ''raider7'' 5,
      AddSubscriber 8 ''hal'' (Some ''1000'') None None, AddRaider 8 ''raider8'' 5,
      AddSubscriber 9 ''ida'' (Some ''1000'') None None, AddRaider 9 ''raider9'' 5,
      AddSubscriber 10 ''jon'' (Some ''1000'') None None, AddRaider 10 ''raider10'' 5]"


definition full_logs :: recent_events where
  "full_logs = run_calls ten_calls initial_events"

definition long_reply :: string where
  "long_reply = replicate 600 CHR ''a''"

definition verbose_ainvoke :: "unit ainvoke" where
  "verbose_ainvoke executor input w = (Inr \<lparr>result_output = long_reply\<rparr>, w)"

definition hello_message :: chat_message where
  "hello_message = \<lparr>echo = False, content = ''BrickNPlateBot, what is set 75192?'', author_name = ''ann''\<rparr>"

text \<open>A dispatcher call that fails, and event details that carry a month count.\<close>

definition failing_ainvoke :: "unit ainvoke" where
  "failing_ainvoke executor input w = (Inl (Exn ''RuntimeError'' ''model unavailable''), w)"

definition three_months :: "(string \<times> detail) list" where
  "three_months = [(''months'', DInt 3), (''tier'', DStr ''1000'')]"

text \<open>The stub of the scenario: every decision is a call of \<open>get_stream_info\<close>.\<close>

definition stubborn_model :: "unit language_model" where
  "stubborn_model ctx w = (Inr (ToolCall ''get_stream_info'' (JDict [])), w)"

definition quiet_tools :: "unit tool_runner" where
  "quiet_tools t arg w = (Inr (JDict [(''tool'', JStr (name t))]), w)"

text \<open>
  A stand-in for the Twitch services. It knows the logins given to it, answers the
  followers request with the body given to it, answers 503 at the addresses listed
  as down, and counts the requests it has seen.
\<close>

definition ok_response :: "json \<Rightarrow> response" where
  "ok_response body =
     \<lparr>status_code = 200, reason = ''OK'', response_url = ''https://api.twitch.tv/'',
      json_body = Inr body\<rparr>"

definition unavailable :: response where
  "unavailable =
     \<lparr>status_code = 503, reason = ''Service Unavailable'', response_url = ''https://api.twitch.tv/'',
      json_body = Inl (Exn ''JSONDecodeError'' ''Expecting value: line 1 column 1 (char 0)'')\<rparr>"

definition user_record :: "string \<Rightarrow> json" where
  "user_record login = JDict
     [(''id'', JStr (''id-'' @ login)),
      (''login'', JStr login),
      (''display_name'', JStr login),
      (''profile_image_url'', JStr ''https://static-cdn.jtvnw.net/user.png''),
      (''created_at'', JStr ''2020-05-17T10:00:00Z''),
      (''description'', JStr ''Builder of bricks''),
      (''broadcaster_type'', JStr [])]"

definition twitch_service :: "string list \<Rightarrow> json \<Rightarrow> piece list list \<Rightarrow> nat http" where
  "twitch_service logins follow_body down req seen =
     (if url req \<in> set down then (Inr unavailable, Suc seen)
      else if url req = [Lit ''https://id.twitch.tv/oauth2/token'']
      then (Inr (ok_response (JDict [(''access_token'', JStr ''app-token''), (''expires_in'', JInt 5000)])),
            Suc seen)
      else if url req = [Lit ''https://api.twitch.tv/helix/users'']
      then (case map_of (params req) ''login'' of
              Some (JStr login) \<Rightarrow>
                (Inr (ok_response (JDict [(''data'',
                   JList (if login \<in> set logins then [user_record login] else []))])), Suc seen)
            | _ \<Rightarrow> (Inr unavailable, Suc seen))
      else if url req = [Lit ''https://api.twitch.tv/helix/channels/followers'']
      then (Inr (ok_response follow_body), Suc seen)
      else (Inr (ok_response (JDict [(''data'', JList [])])), Suc seen))"

definition bot_config :: config where
  "bot_config =
     \<lparr>REBRICKABLE_API_KEY = Some ''rb-key'',
      TWITCH_CLIENT_ID = Some ''client'',
      TWITCH_CLIENT_SECRET = Some ''secret'',
      TWITCH_CHANNEL = Some ''#BrickNPlate'',
      STREAM_INFO_FILE = ''stream_info.yaml''\<rparr>"

definition followed_body :: json where
  "followed_body = JDict
     [(''total'', JInt 1),
      (''data'', JList [JDict [(''user_id'', JStr ''id-ann''),
                              (''followed_at'', JStr ''2024-02-03T18:30:00Z'')]])]"

definition not_followed_body :: json where
  "not_followed_body = JDict [(''total'', JInt 0), (''data'', JList [])]"

text \<open>A file system with no file at all, and a catalogue answer with two sets.\<close>

definition no_files :: filesystem where
  "no_files path = None"

definition two_sets :: json where
  "two_sets = JDict
     [(''count'', JInt 2),
      (''results'', JList
         [JDict [(''set_num'', JStr ''75192-1''), (''name'', JStr ''Millennium Falcon'')],
          JDict [(''set_num'', JStr ''75257-1''), (''name'', JStr ''Millennium Falcon'')]])]"

definition lego_service :: "unit http" where
  "lego_service req w =
     (Inr \<lparr>status_code = 200, reason = ''OK'', response_url = ''https://rebrickable.com/api/v3/lego/sets/'',
           json_body = Inr two_sets\<rparr>, w)"

definition lego_offline :: "unit http" where
  "lego_offline req w = (Inl (Exn ''ConnectionError'' ''Max retries exceeded''), w)"

section \<open>The recent-event logs stay capped\<close>

lemma apply_call_capped: "capped ev \<Longrightarrow> capped (apply_call c ev)"
  by (cases c) (auto simp: capped_def add_subscriber_def add_raider_def pop0_def Let_def)

lemma run_calls_capped: "capped ev \<Longrightarrow> capped (run_calls cs ev)"
proof (induction cs arbitrary: ev)
  case Nil
  then show ?case by simp
next
  case (Cons c cs)
  from Cons.prems have "capped (apply_call c ev)"
    by (rule apply_call_capped)
  then show ?case
    using Cons.IH by simp
qed

lemma initial_events_capped: "capped initial_events"
  by (simp add: capped_def initial_events_def)

lemma add_subscriber_full:
  "length (subscribers ev) = 10 \<Longrightarrow>
   subscribers (add_subscriber now u t m msg ev) =
     tl (subscribers ev) @
       [\<lparr>sub_username = u, sub_tier = t, sub_months = m, sub_message = msg, sub_timestamp = now\<rparr>]"
  by (cases "subscribers ev") (simp_all add: add_subscriber_def pop0_def Let_def)

lemma add_raider_full:
  "length (raiders ev) = 10 \<Longrightarrow>
   raiders (add_raider now u v ev) =
     tl (raiders ev) @ [\<lparr>raid_username = u, raid_viewers = v, raid_timestamp = now\<rparr>]"
  by (cases "raiders ev") (simp_all add: add_raider_def pop0_def Let_def)

lemma evicted_absent:
  "length xs = 10 \<Longrightarrow> distinct (xs @ [e]) \<Longrightarrow> hd xs \<notin> set (tl xs @ [e])"
  by (cases xs) auto

lemma last_ten_short: "length xs \<le> 10 \<Longrightarrow> last_ten xs = xs"
  by (simp add: last_ten_def)

lemma last_ten_append: "last_ten (last_ten xs @ ys) = last_ten (xs @ ys)"
proof (cases "10 \<le> length xs")
  case True
  then have "length xs + length ys - (length xs - 10 + 10) + (length xs - 10)
      = length xs + length ys - 10"
    by arith
  with True show ?thesis by (simp add: last_ten_def)
next
  case False
  then show ?thesis by (simp add: last_ten_def)
qed

lemma append_then_pop:
  "length xs \<le> 10 \<Longrightarrow>
   (if length (xs @ [e]) > 10 then pop0 (xs @ [e]) else xs @ [e]) = last_ten (xs @ [e])"
proof (cases "length xs = 10")
  case True
  then show ?thesis by (simp add: last_ten_def pop0_def)
next
  case False
  assume "length xs \<le> 10"
  with False have "length xs < 10" by arith
  then show ?thesis by (simp add: last_ten_def)
qed

lemma apply_call_last_ten:
  assumes "capped ev"
  shows "subscribers (apply_call c ev) = last_ten (subscribers ev @ subscriber_entries [c])
    \<and> raiders (apply_call c ev) = last_ten (raiders ev @ raider_entries [c])"
proof (cases c)
  case (AddSubscriber now u t m msg)
  with assms show ?thesis
    using append_then_pop [of "subscribers ev"]
    by (simp add: add_subscriber_def Let_def capped_def last_ten_short)
next
  case (AddRaider now u v)
  with assms show ?thesis
    using append_then_pop [of "raiders ev"]
    by (simp add: add_raider_def Let_def capped_def last_ten_short)
qed

lemma entries_Cons:
  "subscriber_entries (c # cs) = subscriber_entries [c] @ subscriber_entries cs
   \<and> raider_entries (c # cs) = raider_entries [c] @ raider_entries cs"
  by (cases c) simp_all

lemma run_calls_last_ten:
  "capped ev \<Longrightarrow>
   subscribers (run_calls cs ev) = last_ten (subscribers ev @ subscriber_entries cs)
   \<and> raiders (run_calls cs ev) = last_ten (raiders ev @ raider_entries cs)"
proof (induction cs arbitrary: ev)
  case Nil
  then show ?case by (simp add: capped_def last_ten_short)
next
  case (Cons c cs)
  from Cons.prems have step: "capped (apply_call c ev)"
    by (rule apply_call_capped)
  from apply_call_last_ten [OF Cons.prems, of c] Cons.IH [OF step]
  have "subscribers (run_calls cs (apply_call c ev)) =
      last_ten (last_ten (subscribers ev @ subscriber_entries [c]) @ subscriber_entries cs)"
    and "raiders (run_calls cs (apply_call c ev)) =
      last_ten (last_ten (raiders ev @ raider_entries [c]) @ raider_entries cs)"
    by simp_all
  then show ?case
    using entries_Cons [of c cs] by (simp add: last_ten_append)
qed

text \<open>
  C2. Whatever sequence of \<open>add_subscriber\<close> and \<open>add_raider\<close> calls runs
  from the empty logs, neither list holds more than 10 entries afterwards: each
  holds the last ten entries appended to it, in the order of the calls. An
  append to a list of 10 entries leaves the old list without its first entry,
  followed by the new entry: the list has 10 entries again, the new entry is in it,
  and the entry that was first is gone from it (when the entries are pairwise
  different, as entries with different timestamps are, it does not occur at all).
\<close>

theorem recent_events_capped_at_ten:
  "length (subscribers (run_calls cs initial_events)) \<le> 10
   \<and> length (raiders (run_calls cs initial_events)) \<le> 10
   \<and> subscribers (run_calls cs initial_events) = last_ten (subscriber_entries cs)
   \<and> raiders (run_calls cs initial_events) = last_ten (raider_entries cs)
   \<and> (length (subscribers ev) = 10 \<longrightarrow>
        (let new = \<lparr>sub_username = u, sub_tier = t, sub_months = m, sub_message = msg,
                     sub_timestamp = now\<rparr>;
             after = subscribers (add_subscriber now u t m msg ev)
         in after = tl (subscribers ev) @ [new]
            \<and> length after = 10
            \<and> new \<in> set after
            \<and> (distinct (subscribers ev @ [new]) \<longrightarrow> hd (subscribers ev) \<notin> set after)))
   \<and> (length (raiders ev) = 10 \<longrightarrow>
        (let new = \<lparr>raid_username = ru, raid_viewers = v, raid_timestamp = rnow\<rparr>;
             after = raiders (add_raider rnow ru v ev)
         in after = tl (raiders ev) @ [new]
            \<and> length after = 10
            \<and> new \<in> set after
            \<and> (distinct (raiders ev @ [new]) \<longrightarrow> hd (raiders ev) \<notin> set after)))"
proof -
  have "capped (run_calls cs initial_events)"
    using initial_events_capped by (rule run_calls_capped)
  then have bound: "length (subscribers (run_calls cs initial_events)) \<le> 10
      \<and> length (raiders (run_calls cs initial_events)) \<le> 10"
    by (simp add: capped_def)
  have kept: "subscribers (run_calls cs initial_events) = last_ten (subscriber_entries cs)
      \<and> raiders (run_calls cs initial_events) = last_ten (raider_entries cs)"
    using run_calls_last_ten [OF initial_events_capped, of cs]
    by (simp add: initial_events_def)
  have subs: "length (subscribers ev) = 10 \<longrightarrow>
        (let new = \<lparr>sub_username = u, sub_tier = t, sub_months = m, sub_message = msg,
                     sub_timestamp = now\<rparr>;
             after = subscribers (add_subscriber now u t m msg ev)
         in after = tl (subscribers ev) @ [new]
            \<and> length after = 10
            \<and> new \<in> set after
            \<and> (distinct (subscribers ev @ [new]) \<longrightarrow> hd (subscribers ev) \<notin> set after))"
    using evicted_absent [of "subscribers ev"]
    by (simp add: add_subscriber_full Let_def del: distinct_append)
  have raids: "length (raiders ev) = 10 \<longrightarrow>
        (let new = \<lparr>raid_username = ru, raid_viewers = v, raid_timestamp = rnow\<rparr>;
             after = raiders (add_raider rnow ru v ev)
         in after = tl (raiders ev) @ [new]
            \<and> length after = 10
            \<and> new \<in> set after
            \<and> (distinct (raiders ev @ [new]) \<longrightarrow> hd (raiders ev) \<notin> set after))"
    using evicted_absent [of "raiders ev"]
    by (simp add: add_raider_full Let_def del: distinct_append)
  from bound kept subs raids show ?thesis by blast
qed

text \<open>The theorem at two full logs of ten entries each.\<close>

theorem recent_events_capped_at_ten_witness:
  "length (subscribers full_logs) = 10
   \<and> distinct (subscribers full_logs @
        [\<lparr>sub_username = ''kim'', sub_tier = Some ''1000'', sub_months = None, sub_message = None,
          sub_timestamp = 11\<rparr>])
   \<and> length (subscribers (add_subscriber 11 ''kim'' (Some ''1000'') None None full_logs)) = 10
   \<and> map sub_username (subscribers (add_subscriber 11 ''kim'' (Some ''1000'') None None full_logs)) =
       [''bob'', ''cat'', ''dan'', ''eve'', ''fay'', ''gus'', ''hal'', ''ida'', ''jon'', ''kim'']
   \<and> hd (subscribers full_logs)
        \<notin> set (subscribers (add_subscriber 11 ''kim'' (Some ''1000'') None None full_logs))
   \<and> length (raiders full_logs) = 10
   \<and> distinct (raiders full_logs @
        [\<lparr>raid_username = ''raider11'', raid_viewers = 5, raid_timestamp = 11\<rparr>])
   \<and> length (raiders (add_raider 11 ''raider11'' 5 full_logs)) = 10
   \<and> hd (raiders full_logs) \<notin> set (raiders (add_raider 11 ''raider11'' 5 full_logs))"
proof -
  have subs: "subscribers full_logs =
      [\<lparr>sub_username = ''ann'', sub_tier = Some ''1000'', sub_months = None, sub_message = None, sub_timestamp = 1\<rparr>,
       \<lparr>sub_username = ''bob'', sub_tier = Some ''1000'', sub_months = None, sub_message = None, sub_timestamp = 2\<rparr>,
       \<lparr>sub_username = ''cat'', sub_tier = Some ''1000'', sub_months = None, sub_message = None, sub_timestamp = 3\<rparr>,
       \<lparr>sub_username = ''dan'', sub_tier = Some ''1000'', sub_months = None, sub_message = None, sub_timestamp = 4\<rparr>,
       \<lparr>sub_username = ''eve'', sub_tier = Some ''1000'', sub_months = None, sub_message = None, sub_timestamp = 5\<rparr>,
       \<lparr>sub_username = ''fay'', sub_tier = Some ''1000'', sub_months = None, sub_message = None, sub_timestamp = 6\<rparr>,
       \<lparr>sub_username = ''gus'', sub_tier = Some ''1000'', sub_months = None, sub_message = None, sub_timestamp = 7\<rparr>,
       \<lparr>sub_username = ''hal'', sub_tier = Some ''1000'', sub_months = None, sub_message = None, sub_timestamp = 8\<rparr>,
       \<lparr>sub_username = ''ida'', sub_tier = Some ''1000'', sub_months = None, sub_message = None, sub_timestamp = 9\<rparr>,
       \<lparr>sub_username = ''jon'', sub_tier = Some ''1000'', sub_months = None, sub_message = None, sub_timestamp = 10\<rparr>]"
    by (simp add: full_logs_def ten_calls_def initial_events_def add_subscriber_def add_raider_def pop0_def Let_def)
  have raids: "raiders full_logs =
      [\<lparr>raid_username = ''raider1'', raid_viewers = 5, raid_timestamp = 1\<rparr>,
       \<lparr>raid_username = ''raider2'', raid_viewers = 5, raid_timestamp = 2\<rparr>,
       \<lparr>raid_username = ''raider3'', raid_viewers = 5, raid_timestamp = 3\<rparr>,
       \<lparr>raid_username = ''raider4'', raid_viewers = 5, raid_timestamp = 4\<rparr>,
       \<lparr>raid_username = ''raider5'', raid_viewers = 5, raid_timestamp = 5\<rparr>,
       \<lparr>raid_username = ''raider6'', raid_viewers = 5, raid_timestamp = 6\<rparr>,
       \<lparr>raid_username = ''raider7'', raid_viewers = 5, raid_timestamp = 7\<rparr>,
       \<lparr>raid_username = ''raider8'', raid_viewers = 5, raid_timestamp = 8\<rparr>,
       \<lparr>raid_username = ''raider9'', raid_viewers = 5, raid_timestamp = 9\<rparr>,
       \<lparr>raid_username = ''raider10'', raid_viewers = 5, raid_timestamp = 10\<rparr>]"
    by (simp add: full_logs_def ten_calls_def initial_events_def add_subscriber_def add_raider_def pop0_def Let_def)
  show ?thesis
    using recent_events_capped_at_ten
      [where cs = ten_calls and ev = full_logs and u = "''kim''" and t = "Some ''1000''"
         and m = None and msg = None and now = 11 and ru = "''raider11''" and v = 5 and rnow = 11]
    by (simp add: subs raids Let_def)
qed

section \<open>Outgoing text is cut to 500 characters\<close>

lemma truncate_length: "length (truncate_for_twitch s) \<le> 500"
  by (simp add: truncate_for_twitch_def)

lemma truncate_long: "500 < length s \<Longrightarrow> truncate_for_twitch s = take 497 s @ ''...''"
  by (simp add: truncate_for_twitch_def)

lemma truncate_short: "length s \<le> 500 \<Longrightarrow> truncate_for_twitch s = s"
  by (simp add: truncate_for_twitch_def)

lemma sent_ok_truncate: "sent_ok reply (truncate_for_twitch reply)"
  by (simp add: sent_ok_def truncate_for_twitch_def)

text \<open>
  C3. In each of the four handlers the text passed to \<open>send\<close> is the reply
  of the dispatcher call cut for Twitch: it has at most 500 characters, and when
  the reply has more than 500 characters it is the reply's first 497 characters
  followed by the three characters \<open>...\<close>.
\<close>

theorem sent_text_at_most_500:
  "(case fst (event_message ainvoke message w) of
      None \<Rightarrow> True
    | Some sent \<Rightarrow>
        sent_ok (fst (process_chat_message ainvoke (author_name message) (content message) w)) sent)
   \<and> sent_ok (fst (process_event ainvoke ''subscription'' (subscriber_name sub)
                     (Some [(''tier'', DStr (sub_plan sub))]) w))
        (fst (event_subscribe ainvoke now sub ev w))
   \<and> sent_ok (fst (process_event ainvoke ''resub'' (resubscriber_name resub)
                     (Some [(''months'', DInt (cumulative_months resub)),
                            (''tier'', DStr (resub_plan resub)),
                            (''message'', DStr (case resub_message resub of None \<Rightarrow> [] | Some c \<Rightarrow> c))]) w))
        (fst (event_resub ainvoke now resub ev w))
   \<and> sent_ok (fst (process_event ainvoke ''raid'' (raider_name raid)
                     (Some [(''viewers'', DInt (viewers raid))]) w))
        (fst (event_raid ainvoke now raid ev w))"
proof -
  have chat: "(case fst (event_message ainvoke message w) of
      None \<Rightarrow> True
    | Some sent \<Rightarrow>
        sent_ok (fst (process_chat_message ainvoke (author_name message) (content message) w)) sent)"
    by (simp add: event_message_def sent_ok_truncate split: prod.splits)
  have sub: "sent_ok (fst (process_event ainvoke ''subscription'' (subscriber_name sub)
                     (Some [(''tier'', DStr (sub_plan sub))]) w))
        (fst (event_subscribe ainvoke now sub ev w))"
    by (simp add: event_subscribe_def Let_def sent_ok_truncate split: prod.splits)
  have resub: "sent_ok (fst (process_event ainvoke ''resub'' (resubscriber_name resub)
                     (Some [(''months'', DInt (cumulative_months resub)),
                            (''tier'', DStr (resub_plan resub)),
                            (''message'', DStr (case resub_message resub of None \<Rightarrow> [] | Some c \<Rightarrow> c))]) w))
        (fst (event_resub ainvoke now resub ev w))"
    by (simp add: event_resub_def Let_def sent_ok_truncate split: prod.splits)
  have raid: "sent_ok (fst (process_event ainvoke ''raid'' (raider_name raid)
                     (Some [(''viewers'', DInt (viewers raid))]) w))
        (fst (event_raid ainvoke now raid ev w))"
    by (simp add: event_raid_def Let_def sent_ok_truncate split: prod.splits)
  from chat sub resub raid show ?thesis by blast
qed

lemma names_bot: "substring ''bricknplatebot'' (lower (content hello_message))"
  by code_simp

text \<open>The theorem at a dispatcher that answers with 600 characters.\<close>

theorem sent_text_at_most_500_witness:
  "fst (event_message verbose_ainvoke hello_message ()) = Some (replicate 497 CHR ''a'' @ ''...'')
   \<and> length (fst (process_chat_message verbose_ainvoke ''ann'' ''BrickNPlateBot, what is set 75192?'' ())) = 600
   \<and> length (fst (event_subscribe verbose_ainvoke 1 \<lparr>subscriber_name = ''bob'', sub_plan = ''1000''\<rparr> initial_events ())) = 500
   \<and> fst (event_resub verbose_ainvoke 1
            \<lparr>resubscriber_name = ''bob'', resub_plan = ''1000'', cumulative_months = 3, resub_message = None\<rparr>
            initial_events ()) = replicate 497 CHR ''a'' @ ''...''
   \<and> fst (event_raid verbose_ainvoke 1 \<lparr>raider_name = ''cat'', viewers = 12\<rparr> initial_events ())
       = replicate 497 CHR ''a'' @ ''...''"
proof -
  have chat: "process_chat_message verbose_ainvoke u m () = (long_reply, ())" for u m
    by (simp add: process_chat_message_def verbose_ainvoke_def Let_def)
  have event: "process_event verbose_ainvoke t u d () = (long_reply, ())" for t u d
    by (simp add: process_event_def verbose_ainvoke_def Let_def)
  have len: "length long_reply = 600" and tk: "take 497 long_reply = replicate 497 CHR ''a''"
    by (simp_all add: long_reply_def)
  show ?thesis
    using sent_text_at_most_500
      [where ainvoke = verbose_ainvoke and message = hello_message and w = "()"
         and sub = "\<lparr>subscriber_name = ''bob'', sub_plan = ''1000''\<rparr>"
         and resub = "\<lparr>resubscriber_name = ''bob'', resub_plan = ''1000'', cumulative_months = 3, resub_message = None\<rparr>"
         and raid = "\<lparr>raider_name = ''cat'', viewers = 12\<rparr>" and now = 1 and ev = initial_events]
      names_bot
    by (simp add: sent_ok_def chat event len tk event_message_def hello_message_def)
qed

section \<open>The event dispatcher's tools and memory\<close>

text \<open>
  C8. The event dispatcher is built with exactly one tool, \<open>get_stream_info\<close>,
  for the agent and for the executor alike; the three other lookup tools of the chat
  dispatcher are not among its tools; and it is built with no conversation memory
  and with no \<open>chat_history\<close> placeholder in its prompt, so nothing of an earlier
  invocation is carried into a later one.
\<close>

theorem event_agent_has_only_stream_info:
  "map name (tools create_event_agent) = [''get_stream_info'']
   \<and> map func (tools create_event_agent) = [Get_stream_info]
   \<and> agent_tools (executor_agent create_event_agent) = tools create_event_agent
   \<and> map name (tools create_chat_agent) =
       [''get_lego_set_info'', ''search_lego_sets'', ''get_twitch_user_info'', ''get_stream_info'']
   \<and> ''get_lego_set_info'' \<notin> set (map name (tools create_event_agent))
   \<and> ''search_lego_sets'' \<notin> set (map name (tools create_event_agent))
   \<and> ''get_twitch_user_info'' \<notin> set (map name (tools create_event_agent))
   \<and> memory create_event_agent = None
   \<and> MessagesPlaceholder ''chat_history'' \<notin> set (agent_prompt (executor_agent create_event_agent))"
  by (simp add: create_event_agent_def create_chat_agent_def get_bot_tools_def Let_def)

section \<open>Failures of a dispatch call\<close>

lemma substring_empty: "substring [] s"
  by (cases s) simp_all

lemma substring_refl_append: "substring k (k @ suf)"
  by (cases k) (simp_all add: substring_empty)

lemma substring_append: "substring k (pre @ k @ suf)"
proof (induction pre)
  case Nil
  show ?case using substring_refl_append by simp
next
  case (Cons c pre)
  then show ?case by simp
qed

lemma process_chat_message_failure:
  "ainvoke create_chat_agent (username @ '': '' @ message) w = (Inl e, w') \<Longrightarrow>
   process_chat_message ainvoke username message w =
     (''Sorry, I encountered an error while processing your message! Error: '' @ exn_str e, w')"
  by (simp add: process_chat_message_def Let_def)

lemma process_event_failure:
  "ainvoke create_event_agent (event_prompt event_type username (case details of None \<Rightarrow> [] | Some d \<Rightarrow> d)) w = (Inl e, w') \<Longrightarrow>
   process_event ainvoke event_type username details w =
     (fallback_message event_type username (case details of None \<Rightarrow> [] | Some d \<Rightarrow> d), w')"
  by (simp add: process_event_def Let_def)

text \<open>
  C6, as the code has it. When the dispatch call raises \<open>e\<close>,
  \<open>process_chat_message\<close> returns the apology that ends with the text of \<open>e\<close>,
  and \<open>process_event\<close> returns a text fixed by \<open>event_type\<close>, \<open>username\<close> and
  \<open>details\<close> alone: for \<open>raid\<close> the raid template with the viewer count (0 when
  the details have none); for \<open>resub\<close> with a month count that is not zero, empty
  or \<open>None\<close> the template with that count; for \<open>subscription\<close>, and for a
  \<open>resub\<close> without such a count, the template without any month count; for every
  other type the generic thanks. The functions return in each case: nothing is
  raised to the caller.
\<close>

theorem dispatch_failure_fallbacks:
  "(ainvoke create_chat_agent (username @ '': '' @ message) w = (Inl e, w') \<longrightarrow>
      fst (process_chat_message ainvoke username message w) =
        ''Sorry, I encountered an error while processing your message! Error: '' @ exn_str e
      \<and> substring (exn_str e) (fst (process_chat_message ainvoke username message w)))
   \<and> (ainvoke create_event_agent (event_prompt event_type username details) w = (Inl e, w') \<longrightarrow>
      fst (process_event ainvoke event_type username (Some details) w) =
        (if event_type = ''raid''
         then ''Thanks for the amazing raid, '' @ username @ '', with ''
              @ detail_str (case map_of details ''viewers'' of None \<Rightarrow> DInt 0 | Some v \<Rightarrow> v)
              @ '' viewers! Welcome to our brick-building adventure!''
         else if event_type = ''resub''
                 \<and> detail_truthy (case map_of details ''months'' of None \<Rightarrow> DNone | Some m \<Rightarrow> m)
         then ''Thanks for the ''
              @ detail_str (case map_of details ''months'' of None \<Rightarrow> DInt 1 | Some m \<Rightarrow> m)
              @ ''-month sub, '' @ username @ ''! You're an essential piece in our community!''
         else if event_type = ''subscription'' \<or> event_type = ''resub''
         then ''Thanks for the sub, '' @ username @ ''! You're an essential piece in our community!''
         else ''Thanks, '' @ username @ ''! You're awesome!''))
   \<and> (ainvoke create_event_agent (event_prompt event_type username []) w = (Inl e, w') \<longrightarrow>
      fst (process_event ainvoke event_type username None w) =
        fst (process_event ainvoke event_type username (Some []) w))"
proof -
  have chat: "ainvoke create_chat_agent (username @ '': '' @ message) w = (Inl e, w') \<longrightarrow>
      fst (process_chat_message ainvoke username message w) =
        ''Sorry, I encountered an error while processing your message! Error: '' @ exn_str e
      \<and> substring (exn_str e) (fst (process_chat_message ainvoke username message w))"
  proof (intro impI conjI)
    assume raised: "ainvoke create_chat_agent (username @ '': '' @ message) w = (Inl e, w')"
    show reply: "fst (process_chat_message ainvoke username message w) =
        ''Sorry, I encountered an error while processing your message! Error: '' @ exn_str e"
      using raised by (simp add: process_chat_message_failure)
    have "substring (exn_str e)
        (''Sorry, I encountered an error while processing your message! Error: '' @ exn_str e @ [])"
      by (rule substring_append)
    then show "substring (exn_str e) (fst (process_chat_message ainvoke username message w))"
      unfolding reply by (simp only: append_Nil2)
  qed
  have event: "ainvoke create_event_agent (event_prompt event_type username details) w = (Inl e, w') \<longrightarrow>
      fst (process_event ainvoke event_type username (Some details) w) =
        (if event_type = ''raid''
         then ''Thanks for the amazing raid, '' @ username @ '', with ''
              @ detail_str (case map_of details ''viewers'' of None \<Rightarrow> DInt 0 | Some v \<Rightarrow> v)
              @ '' viewers! Welcome to our brick-building adventure!''
         else if event_type = ''resub''
                 \<and> detail_truthy (case map_of details ''months'' of None \<Rightarrow> DNone | Some m \<Rightarrow> m)
         then ''Thanks for the ''
              @ detail_str (case map_of details ''months'' of None \<Rightarrow> DInt 1 | Some m \<Rightarrow> m)
              @ ''-month sub, '' @ username @ ''! You're an essential piece in our community!''
         else if event_type = ''subscription'' \<or> event_type = ''resub''
         then ''Thanks for the sub, '' @ username @ ''! You're an essential piece in our community!''
         else ''Thanks, '' @ username @ ''! You're awesome!'')"
    by (simp add: process_event_failure fallback_message_def details_get_def Let_def)
  have none: "ainvoke create_event_agent (event_prompt event_type username []) w = (Inl e, w') \<longrightarrow>
      fst (process_event ainvoke event_type username None w) =
        fst (process_event ainvoke event_type username (Some []) w)"
    by (simp add: process_event_def)
  from chat event none show ?thesis by blast
qed


text \<open>
  The theorem at a dispatch call that raises \<open>RuntimeError("model unavailable")\<close>:
  the apology, the raid template, the resubscription template with its month count.
\<close>

theorem dispatch_failure_fallbacks_witness:
  "failing_ainvoke create_chat_agent (''ann'' @ '': '' @ ''hello'') () =
     (Inl (Exn ''RuntimeError'' ''model unavailable''), ())
   \<and> fst (process_chat_message failing_ainvoke ''ann'' ''hello'' ()) =
       ''Sorry, I encountered an error while processing your message! Error: model unavailable''
   \<and> substring ''model unavailable'' (fst (process_chat_message failing_ainvoke ''ann'' ''hello'' ()))
   \<and> failing_ainvoke create_event_agent (event_prompt ''resub'' ''bob'' three_months) () =
       (Inl (Exn ''RuntimeError'' ''model unavailable''), ())
   \<and> fst (process_event failing_ainvoke ''resub'' ''bob'' (Some three_months) ()) =
       ''Thanks for the 3-month sub, bob! You're an essential piece in our community!''
   \<and> fst (process_event failing_ainvoke ''resub'' ''bob'' None ()) =
       ''Thanks for the sub, bob! You're an essential piece in our community!''"
proof -
  have three: "str_int 3 = ''3''"
    by code_simp
  show ?thesis
    using dispatch_failure_fallbacks
      [where ainvoke = failing_ainvoke and username = "''ann''" and message = "''hello''"
         and w = "()" and w' = "()" and e = "Exn ''RuntimeError'' ''model unavailable''"
         and event_type = "''resub''" and details = three_months]
      dispatch_failure_fallbacks
      [where ainvoke = failing_ainvoke and username = "''bob''" and message = "''hello''"
         and w = "()" and w' = "()" and e = "Exn ''RuntimeError'' ''model unavailable''"
         and event_type = "''resub''" and details = three_months]
      dispatch_failure_fallbacks
      [where ainvoke = failing_ainvoke and username = "''bob''" and message = "''hello''"
         and w = "()" and w' = "()" and e = "Exn ''RuntimeError'' ''model unavailable''"
         and event_type = "''resub''" and details = "[]"]
    by (simp add: failing_ainvoke_def three_months_def three)
qed

text \<open>
  C6 as stated fails for a subscription: the fallback of \<open>subscription\<close> never
  names a month count, whatever the details hold. With 3 months in the details the
  text has no \<open>3\<close> in it.
\<close>

theorem subscription_fallback_without_months:
  "fst (process_event failing_ainvoke ''subscription'' ''bob'' (Some three_months) ()) =
     ''Thanks for the sub, bob! You're an essential piece in our community!''
   \<and> \<not> substring (str_int 3)
         (fst (process_event failing_ainvoke ''subscription'' ''bob'' (Some three_months) ()))"
proof -
  have three: "str_int 3 = ''3''"
    by code_simp
  have reply: "fst (process_event failing_ainvoke ''subscription'' ''bob'' (Some three_months) ()) =
     ''Thanks for the sub, bob! You're an essential piece in our community!''"
    by (simp add: process_event_def failing_ainvoke_def fallback_message_def Let_def)
  show ?thesis
    unfolding reply three by simp
qed

section \<open>Events of an unknown type\<close>

text \<open>
  C10. \<open>process_event\<close> takes any event type. For a type other than
  \<open>subscription\<close>, \<open>resub\<close> and \<open>raid\<close> it calls the event dispatcher with the
  generic description of the event followed by the instructions, returns the
  dispatcher's output when there is one, and returns the fixed thanks
  \<open>Thanks, {username}! You're awesome!\<close> when the call raises.
\<close>

theorem unknown_event_type_handled:
  "event_type \<notin> {''subscription'', ''resub'', ''raid''} \<Longrightarrow>
   process_event ainvoke event_type username details w =
     (case ainvoke create_event_agent
             (username @ '' triggered an event of type '' @ event_type @ ''.''
              @ '' Generate a personalized thank you message for this '' @ event_type
              @ '' event. Make it brief, enthusiastic, and Lego-themed.'') w of
        (Inr result, w') \<Rightarrow> (result_output result, w')
      | (Inl e, w') \<Rightarrow> (''Thanks, '' @ username @ ''! You're awesome!'', w'))"
  by (simp add: process_event_def event_prompt_def event_description_def fallback_message_def
      Let_def split: prod.splits sum.splits)

text \<open>The theorem at a \<open>cheer\<close> event whose dispatch call raises.\<close>

theorem unknown_event_type_handled_witness:
  "''cheer'' \<notin> {''subscription'', ''resub'', ''raid''}
   \<and> process_event failing_ainvoke ''cheer'' ''dan'' None () = (''Thanks, dan! You're awesome!'', ())"
  using unknown_event_type_handled
    [where event_type = "''cheer''" and ainvoke = failing_ainvoke and username = "''dan''"
       and details = None and w = "()"]
  by (simp add: failing_ainvoke_def)

section \<open>The dispatch loop ends within its cap\<close>

lemma dispatch_loop_passes:
  "fst (snd (dispatch_loop model run_tool available stop_text n ctx w)) \<le> n"
proof (induction n arbitrary: ctx w)
  case 0
  show ?case by simp
next
  case (Suc n)
  show ?case
  proof (cases "dispatch_step model run_tool available ctx w")
    case (Pair step w1)
    show ?thesis
    proof (cases step)
      case (Finished outcome)
      with Pair show ?thesis by simp
    next
      case (Again ctx')
      obtain outcome passes w2 where
        rest: "dispatch_loop model run_tool available stop_text n ctx' w1 = (outcome, passes, w2)"
        by (cases "dispatch_loop model run_tool available stop_text n ctx' w1") auto
      from Suc.IH [of ctx' w1] rest have "passes \<le> n" by simp
      with Pair Again rest show ?thesis by simp
    qed
  qed
qed

lemma dispatch_step_again:
  assumes "always_calls_tool model" and "tools_never_raise run_tool"
  shows "\<exists>ctx' w1. dispatch_step model run_tool available ctx w = (Again ctx', w1)"
proof -
  from assms(1) obtain wanted arg w1 where
    m: "model ctx w = (Inr (ToolCall wanted arg), w1)"
    unfolding always_calls_tool_def by blast
  show ?thesis
  proof (cases "find (\<lambda>t. name t = wanted) available")
    case None
    with m show ?thesis by (simp add: dispatch_step_def)
  next
    case (Some t)
    from assms(2) obtain result w2 where "run_tool t arg w1 = (Inr result, w2)"
      unfolding tools_never_raise_def by blast
    with m Some show ?thesis by (simp add: dispatch_step_def)
  qed
qed

lemma dispatch_loop_stubborn:
  assumes "always_calls_tool model" and "tools_never_raise run_tool"
  shows "\<exists>w'. dispatch_loop model run_tool available stop_text n ctx w = (Inr stop_text, n, w')"
proof (induction n arbitrary: ctx w)
  case 0
  show ?case by simp
next
  case (Suc n)
  from dispatch_step_again [OF assms] obtain ctx' w1 where
    step: "dispatch_step model run_tool available ctx w = (Again ctx', w1)"
    by blast
  from Suc.IH [of ctx' w1] obtain w2 where
    "dispatch_loop model run_tool available stop_text n ctx' w1 = (Inr stop_text, n, w2)"
    by blast
  with step show ?case by simp
qed

lemma max_iterations_chat: "max_iterations create_chat_agent = 3"
  by (simp add: create_chat_agent_def Let_def)

lemma max_iterations_event: "max_iterations create_event_agent = 2"
  by (simp add: create_event_agent_def Let_def)

text \<open>
  C5. Whatever the model and the tools do, one invocation of the chat dispatcher
  makes at most 3 passes of the loop and one invocation of the event dispatcher at
  most 2. With a model that asks for a tool call at every step (and tools that
  answer), the chat dispatcher makes exactly 3 passes and the event dispatcher
  exactly 2, each then returns the stop text, and \<open>process_chat_message\<close> and
  \<open>process_event\<close> return that text.
\<close>

theorem dispatch_ends_within_cap:
  "fst (snd (run_dispatcher model run_tool stop_text history create_chat_agent input w)) \<le> 3
   \<and> fst (snd (run_dispatcher model run_tool stop_text history create_event_agent input w)) \<le> 2
   \<and> (always_calls_tool model \<and> tools_never_raise run_tool \<longrightarrow>
        fst (run_dispatcher model run_tool stop_text history create_chat_agent input w) = Inr stop_text
        \<and> fst (snd (run_dispatcher model run_tool stop_text history create_chat_agent input w)) = 3
        \<and> fst (run_dispatcher model run_tool stop_text history create_event_agent input w) = Inr stop_text
        \<and> fst (snd (run_dispatcher model run_tool stop_text history create_event_agent input w)) = 2
        \<and> fst (process_chat_message (loop_ainvoke model run_tool stop_text history) username message w)
            = stop_text
        \<and> fst (process_event (loop_ainvoke model run_tool stop_text history) event_type username details w)
            = stop_text)"
proof -
  have chat: "fst (snd (run_dispatcher model run_tool stop_text history create_chat_agent input w)) \<le> 3"
    using dispatch_loop_passes [of model run_tool _ stop_text 3]
    by (simp add: run_dispatcher_def max_iterations_chat)
  have event: "fst (snd (run_dispatcher model run_tool stop_text history create_event_agent input w)) \<le> 2"
    using dispatch_loop_passes [of model run_tool _ stop_text 2]
    by (simp add: run_dispatcher_def max_iterations_event)
  have stub: "fst (run_dispatcher model run_tool stop_text history create_chat_agent input w) = Inr stop_text
        \<and> fst (snd (run_dispatcher model run_tool stop_text history create_chat_agent input w)) = 3
        \<and> fst (run_dispatcher model run_tool stop_text history create_event_agent input w) = Inr stop_text
        \<and> fst (snd (run_dispatcher model run_tool stop_text history create_event_agent input w)) = 2
        \<and> fst (process_chat_message (loop_ainvoke model run_tool stop_text history) username message w)
            = stop_text
        \<and> fst (process_event (loop_ainvoke model run_tool stop_text history) event_type username details w)
            = stop_text"
    if a: "always_calls_tool model" and b: "tools_never_raise run_tool"
  proof -
    have run: "\<exists>w'. run_dispatcher model run_tool stop_text history executor inp w =
        (Inr stop_text, max_iterations executor, w')" for executor inp
      unfolding run_dispatcher_def by (rule dispatch_loop_stubborn [OF a b])
    have invoke: "\<exists>w'. loop_ainvoke model run_tool stop_text history executor inp w =
        (Inr \<lparr>result_output = stop_text\<rparr>, w')" for executor inp
      using run [of executor inp] by (auto simp: loop_ainvoke_def)
    have pcm: "fst (process_chat_message (loop_ainvoke model run_tool stop_text history) username message w)
            = stop_text"
      using invoke [of create_chat_agent "username @ '': '' @ message"]
      by (auto simp: process_chat_message_def Let_def)
    have pe: "fst (process_event (loop_ainvoke model run_tool stop_text history) event_type username details w)
            = stop_text"
      using invoke [of create_event_agent
          "event_prompt event_type username (case details of None \<Rightarrow> [] | Some d \<Rightarrow> d)"]
      by (auto simp: process_event_def Let_def)
    from run [of create_chat_agent input] run [of create_event_agent input] pcm pe
    show ?thesis
      by (auto simp: max_iterations_chat max_iterations_event)
  qed
  from chat event stub show ?thesis by blast
qed

lemma stubborn_model_always: "always_calls_tool stubborn_model"
  by (simp add: always_calls_tool_def stubborn_model_def)

lemma quiet_tools_never_raise: "tools_never_raise quiet_tools"
  by (simp add: tools_never_raise_def quiet_tools_def)

text \<open>The theorem at the stub: three passes for chat, two for an event, then the stop text.\<close>

theorem dispatch_ends_within_cap_witness:
  "always_calls_tool stubborn_model
   \<and> tools_never_raise quiet_tools
   \<and> run_dispatcher stubborn_model quiet_tools ''stopped'' [] create_chat_agent ''ann: hi'' ()
       = (Inr ''stopped'', 3, ())
   \<and> run_dispatcher stubborn_model quiet_tools ''stopped'' [] create_event_agent ''ann raided'' ()
       = (Inr ''stopped'', 2, ())
   \<and> fst (process_chat_message (loop_ainvoke stubborn_model quiet_tools ''stopped'' []) ''ann'' ''hi'' ())
       = ''stopped''
   \<and> fst (process_event (loop_ainvoke stubborn_model quiet_tools ''stopped'' []) ''raid'' ''ann'' None ())
       = ''stopped''"
  using dispatch_ends_within_cap
    [where model = stubborn_model and run_tool = quiet_tools and stop_text = "''stopped''"
       and history = "[]" and input = "''ann: hi''" and w = "()" and username = "''ann''"
       and message = "''hi''" and event_type = "''raid''" and details = None]
    dispatch_ends_within_cap
    [where model = stubborn_model and run_tool = quiet_tools and stop_text = "''stopped''"
       and history = "[]" and input = "''ann raided''" and w = "()" and username = "''ann''"
       and message = "''hi''" and event_type = "''raid''" and details = None]
    stubborn_model_always quiet_tools_never_raise
  by (auto simp: prod_eq_iff)

section \<open>The Twitch user lookup\<close>

lemma error_only_error_result: "error_only (error_result text)"
  by (simp add: error_only_def error_result_def is_mapping_def keys_of_def)

lemma get_twitch_user_info_steps:
  "get_twitch_user_info cfg http username w =
     (case get_access_token cfg http w of
        (Inl e, w1) \<Rightarrow>
          (error_result (''Could not fetch information for user '' @ username @ '': '' @ exn_str e), w1)
      | (Inr access_token, w1) \<Rightarrow>
     (case resolve_user http (twitch_headers cfg access_token) username w1 of
        (Inl e, w2) \<Rightarrow>
          (error_result (''Could not fetch information for user '' @ username @ '': '' @ exn_str e), w2)
      | (Inr None, w2) \<Rightarrow>
          (error_result (''User '' @ [CHR 0x27] @ username @ [CHR 0x27] @ '' not found on Twitch''), w2)
      | (Inr (Some (user_id, user_info)), w2) \<Rightarrow>
     (case fetch_channel http (twitch_headers cfg access_token) user_id w2 of
        (Inl e, w3) \<Rightarrow>
          (error_result (''Could not fetch information for user '' @ username @ '': '' @ exn_str e), w3)
      | (Inr channel_data, w3) \<Rightarrow>
     (case check_follow cfg http (twitch_headers cfg access_token) user_id w3 of
        (Inl e, w4) \<Rightarrow>
          (error_result (''Could not fetch information for user '' @ username @ '': '' @ exn_str e), w4)
      | (Inr following_since, w4) \<Rightarrow>
     (case compile_result user_id user_info channel_data following_since of
        Inl e \<Rightarrow>
          (error_result (''Could not fetch information for user '' @ username @ '': '' @ exn_str e), w4)
      | Inr result \<Rightarrow> (result, w4))))))"
  by (simp add: get_twitch_user_info_def twitch_lookup_def bind_io_def lift_io_def
      split: prod.splits sum.splits option.splits)

lemma compile_result_shape:
  assumes "compile_result user_id user_info channel_data following_since = Inr r"
  shows "is_mapping r \<and> keys_of r = nine_keys
     \<and> lookup_key r ''id'' = Some user_id
     \<and> lookup_key r ''channel'' = Some channel_data
     \<and> lookup_key r ''following_since'' =
         Some (case following_since of None \<Rightarrow> JNull | Some since \<Rightarrow> since)
     \<and> lookup_key r ''is_following'' =
         Some (JBool (case following_since of None \<Rightarrow> False | Some since \<Rightarrow> since \<noteq> JNull))"
  using assms
  by (auto simp: compile_result_def bindE_def is_mapping_def keys_of_def nine_keys_def lookup_key_def
      split: sum.splits)

lemma twitch_result_cases:
  "error_only (fst (get_twitch_user_info cfg http username w))
   \<or> (\<exists>user_id user_info channel_data following_since.
         compile_result user_id user_info channel_data following_since
           = Inr (fst (get_twitch_user_info cfg http username w)))"
  by (auto simp: get_twitch_user_info_steps error_only_error_result
      split: prod.splits sum.splits option.splits)

lemma fetch_json_failed:
  "http_failed (fst (http req w)) \<Longrightarrow> isl (fst (fetch_json http req w))"
  by (auto simp: http_failed_def fetch_json_def bind_io_def lift_io_def bindE_def raise_for_status_def
      split: prod.splits sum.splits)

lemma ann_followed:
  "fst (get_twitch_user_info bot_config (twitch_service [''ann'', ''bricknplate''] followed_body []) ''Ann'' 0)
   = JDict
       [(''username'', JStr ''ann''), (''id'', JStr ''id-ann''),
        (''profile_image'', JStr ''https://static-cdn.jtvnw.net/user.png''),
        (''account_created'', JStr ''2020-05-17T10:00:00Z''),
        (''description'', JStr ''Builder of bricks''),
        (''broadcaster_type'', JStr []), (''channel'', JDict []),
        (''following_since'', JStr ''2024-02-03T18:30:00Z''),
        (''is_following'', JBool True)]"
  by code_simp

lemma ann_channel_unknown:
  "fst (get_twitch_user_info bot_config (twitch_service [''ann''] followed_body []) ''Ann'' 0)
   = JDict
       [(''username'', JStr ''ann''), (''id'', JStr ''id-ann''),
        (''profile_image'', JStr ''https://static-cdn.jtvnw.net/user.png''),
        (''account_created'', JStr ''2020-05-17T10:00:00Z''),
        (''description'', JStr ''Builder of bricks''),
        (''broadcaster_type'', JStr []), (''channel'', JDict []),
        (''following_since'', JNull),
        (''is_following'', JBool False)]"
  by code_simp

lemma check_follow_unresolved:
  assumes "TWITCH_CHANNEL cfg = Some channel"
    and "fetch_json http (users_request hdrs (lstrip_hash (lower channel))) w = (Inr broadcaster_data, w1)"
    and "getitem broadcaster_data ''data'' = Inr data"
    and "\<not> truthy data"
  shows "check_follow cfg http hdrs user_id w = (Inr None, w1)"
  using assms by (simp add: check_follow_def bind_io_def lift_io_def)

lemma read_follow_no_data:
  "py_contains ''data'' follow_data = Inr False \<Longrightarrow> read_follow follow_data = Inr (Some JNull)"
  by (simp add: read_follow_def bindE_def)

lemma read_follow_empty_data:
  "py_contains ''data'' follow_data = Inr True \<Longrightarrow> getitem follow_data ''data'' = Inr data \<Longrightarrow>
   \<not> truthy data \<Longrightarrow> read_follow follow_data = Inr (Some JNull)"
  by (simp add: read_follow_def bindE_def)

text \<open>
  C9. A result of \<open>get_twitch_user_info\<close> without the \<open>error\<close> key has both
  fields, and \<open>is_following\<close> is true exactly when \<open>following_since\<close> is not
  \<open>None\<close>. In particular: when the bot's own channel is not resolved (the user
  search for it gives no data) step 4 leaves \<open>following_since\<close> unassigned, and
  when the followers answer has no data it assigns \<open>None\<close>; in both cases the
  result has \<open>following_since = None\<close> and \<open>is_following = False\<close>.
\<close>

theorem is_following_iff_following_since:
  "(let r = fst (get_twitch_user_info cfg http username w)
    in ''error'' \<notin> set (keys_of r) \<longrightarrow>
       (\<exists>since. lookup_key r ''following_since'' = Some since
          \<and> lookup_key r ''is_following'' = Some (JBool (since \<noteq> JNull))))
   \<and> (TWITCH_CHANNEL cfg = Some channel
        \<and> fetch_json http (users_request hdrs (lstrip_hash (lower channel))) w = (Inr broadcaster_data, w1)
        \<and> getitem broadcaster_data ''data'' = Inr data \<and> \<not> truthy data
       \<longrightarrow> check_follow cfg http hdrs user_id w = (Inr None, w1))
   \<and> (py_contains ''data'' follow_data = Inr False \<longrightarrow> read_follow follow_data = Inr (Some JNull))
   \<and> (py_contains ''data'' follow_data = Inr True \<and> getitem follow_data ''data'' = Inr fdata
        \<and> \<not> truthy fdata
       \<longrightarrow> read_follow follow_data = Inr (Some JNull))
   \<and> (compile_result uid user_info channel_data following_since = Inr result
        \<and> (following_since = None \<or> following_since = Some JNull)
       \<longrightarrow> lookup_key result ''following_since'' = Some JNull
           \<and> lookup_key result ''is_following'' = Some (JBool False))"
proof -
  have iff: "let r = fst (get_twitch_user_info cfg http username w)
    in ''error'' \<notin> set (keys_of r) \<longrightarrow>
       (\<exists>since. lookup_key r ''following_since'' = Some since
          \<and> lookup_key r ''is_following'' = Some (JBool (since \<noteq> JNull)))"
  proof -
    from twitch_result_cases [of cfg http username w]
    show ?thesis
    proof
      assume "error_only (fst (get_twitch_user_info cfg http username w))"
      then show ?thesis by (simp add: error_only_def Let_def)
    next
      assume "\<exists>user_id user_info channel_data following_since.
         compile_result user_id user_info channel_data following_since
           = Inr (fst (get_twitch_user_info cfg http username w))"
      then obtain user_id user_info channel_data following_since where
        "compile_result user_id user_info channel_data following_since
           = Inr (fst (get_twitch_user_info cfg http username w))"
        by blast
      from compile_result_shape [OF this] show ?thesis
        by (cases following_since) (simp_all add: Let_def)
    qed
  qed
  have unresolved: "TWITCH_CHANNEL cfg = Some channel
        \<and> fetch_json http (users_request hdrs (lstrip_hash (lower channel))) w = (Inr broadcaster_data, w1)
        \<and> getitem broadcaster_data ''data'' = Inr data \<and> \<not> truthy data
       \<longrightarrow> check_follow cfg http hdrs user_id w = (Inr None, w1)"
    by (auto intro: check_follow_unresolved)
  have no_data: "py_contains ''data'' follow_data = Inr False \<longrightarrow> read_follow follow_data = Inr (Some JNull)"
    by (auto intro: read_follow_no_data)
  have empty_data: "py_contains ''data'' follow_data = Inr True \<and> getitem follow_data ''data'' = Inr fdata
        \<and> \<not> truthy fdata
       \<longrightarrow> read_follow follow_data = Inr (Some JNull)"
    by (auto intro: read_follow_empty_data)
  have fields: "compile_result uid user_info channel_data following_since = Inr result
        \<and> (following_since = None \<or> following_since = Some JNull)
       \<longrightarrow> lookup_key result ''following_since'' = Some JNull
           \<and> lookup_key result ''is_following'' = Some (JBool False)"
    using compile_result_shape [of uid user_info channel_data following_since result] by auto
  from iff unresolved no_data empty_data fields show ?thesis by blast
qed

text \<open>
  The theorem at a user who follows the channel, and at the empty followers answer
  of a user who does not.
\<close>

theorem is_following_iff_following_since_witness:
  "''error'' \<notin> set (keys_of (fst (get_twitch_user_info bot_config
        (twitch_service [''ann'', ''bricknplate''] followed_body []) ''Ann'' 0)))
   \<and> lookup_key (fst (get_twitch_user_info bot_config
        (twitch_service [''ann'', ''bricknplate''] followed_body []) ''Ann'' 0)) ''following_since''
       = Some (JStr ''2024-02-03T18:30:00Z'')
   \<and> lookup_key (fst (get_twitch_user_info bot_config
        (twitch_service [''ann'', ''bricknplate''] followed_body []) ''Ann'' 0)) ''is_following''
       = Some (JBool True)
   \<and> py_contains ''data'' not_followed_body = Inr True
   \<and> getitem not_followed_body ''data'' = Inr (JList [])
   \<and> read_follow not_followed_body = Inr (Some JNull)
   \<and> py_contains ''data'' (JDict []) = Inr False
   \<and> read_follow (JDict []) = Inr (Some JNull)
   \<and> lookup_key (fst (get_twitch_user_info bot_config
        (twitch_service [''ann''] followed_body []) ''Ann'' 0)) ''is_following''
       = Some (JBool False)"
  using is_following_iff_following_since
    [where cfg = bot_config and http = "twitch_service [''ann'', ''bricknplate''] followed_body []"
       and username = "''Ann''" and w = 0 and follow_data = not_followed_body
       and fdata = "JList []"]
    is_following_iff_following_since
    [where cfg = bot_config and http = "twitch_service [''ann''] followed_body []"
       and username = "''Ann''" and w = 0 and follow_data = "JDict []"]
  by (simp add: ann_followed ann_channel_unknown keys_of_def lookup_key_def not_followed_body_def
      read_follow_def bindE_def)








section \<open>The stream-info document\<close>










section \<open>What the four lookup tools return\<close>

lemma get_lego_set_info_failed:
  "isl (fst (fetch_json http (lego_set_request cfg set_num) w)) \<Longrightarrow>
   fst (get_lego_set_info cfg http set_num w) =
     error_result (''Could not find information for set '' @ set_num)"
  by (auto simp: get_lego_set_info_def isl_def split: prod.splits sum.splits)

lemma get_lego_set_info_found:
  "fetch_json http (lego_set_request cfg set_num) w = (Inr body, w') \<Longrightarrow>
   get_lego_set_info cfg http set_num w = (body, w')"
  by (simp add: get_lego_set_info_def)

lemma search_lego_sets_failed:
  "isl (fst (fetch_json http (lego_search_request cfg query) w)) \<Longrightarrow>
   fst (search_lego_sets cfg http query w) =
     error_result (''Could not find any sets matching '' @ [CHR 0x27] @ query @ [CHR 0x27])"
  by (auto simp: search_lego_sets_def bind_io_def isl_def split: prod.splits sum.splits)

lemma search_lego_sets_found:
  "fetch_json http (lego_search_request cfg query) w = (Inr (JDict d), w') \<Longrightarrow>
   search_lego_sets cfg http query w =
     (case map_of d ''results'' of
        None \<Rightarrow> (JList [], w')
      | Some results \<Rightarrow>
          (case slice5 results of
             Inl e \<Rightarrow>
               (error_result (''Could not find any sets matching '' @ [CHR 0x27] @ query @ [CHR 0x27]), w')
           | Inr firsts \<Rightarrow> (firsts, w')))"
  by (simp add: search_lego_sets_def bind_io_def lift_io_def bindE_def split: option.splits sum.splits)

lemma slice5_shape:
  "slice5 v = Inr r \<Longrightarrow>
   (\<exists>xs. r = JList xs \<and> length xs \<le> 5) \<or> (\<exists>s. r = JStr s \<and> length s \<le> 5)"
  by (cases v) auto

lemma search_lego_sets_shape:
  "error_only (fst (search_lego_sets cfg http query w))
   \<or> (\<exists>xs. fst (search_lego_sets cfg http query w) = JList xs \<and> length xs \<le> 5)
   \<or> (\<exists>s. fst (search_lego_sets cfg http query w) = JStr s \<and> length s \<le> 5)"
proof (cases "fetch_json http (lego_search_request cfg query) w")
  case (Pair outcome w')
  show ?thesis
  proof (cases outcome)
    case (Inl e)
    with Pair show ?thesis
      by (simp add: search_lego_sets_def bind_io_def error_only_error_result)
  next
    case (Inr decoded)
    show ?thesis
    proof (cases "bindE (py_get decoded ''results'' (JList [])) slice5")
      case (Inl e)
      with Pair \<open>outcome = Inr decoded\<close> show ?thesis
        by (simp add: search_lego_sets_def bind_io_def lift_io_def error_only_error_result)
    next
      case (Inr firsts)
      then obtain results where "slice5 results = Inr firsts"
        by (auto simp: bindE_def split: sum.splits)
      from slice5_shape [OF this] Pair \<open>outcome = Inr decoded\<close> Inr show ?thesis
        by (simp add: search_lego_sets_def bind_io_def lift_io_def)
    qed
  qed
qed

lemma get_stream_info_shape:
  "error_only (fst (get_stream_info cfg category fs))
   \<or> fst (get_stream_info cfg category fs) =
        (case fs (STREAM_INFO_FILE cfg) of
           Some (YamlFile doc) \<Rightarrow> doc
         | _ \<Rightarrow> create_default_stream_info)
   \<or> (\<exists>c entry. category = Some c \<and> fst (get_stream_info cfg category fs) = JDict [(c, entry)])"
  by (auto simp: get_stream_info_def load_stream_info_def select_category_def bindE_def
      error_only_error_result split: option.splits stored_file.splits sum.splits if_splits)

lemma get_stream_info_bad_file:
  "fs (STREAM_INFO_FILE cfg) = Some (BadFile e) \<Longrightarrow>
   get_stream_info cfg category fs =
     (error_result (''Could not retrieve stream information: '' @ exn_str e), fs)"
  by (simp add: get_stream_info_def load_stream_info_def)

text \<open>
  C1, as the code has it. Each of the four tools returns a value for every input
  and every behaviour of the services and of the file system: the functions are
  total and no exception leaves them. When the lookup fails, the result is the
  failure marker, a mapping whose only key is \<open>error\<close>: for the two catalogue
  tools when the request meets a transport error or an error status, or the
  answer cannot be decoded; for the Twitch tool when the token request fails or
  anything else raises inside its \<open>try\<close> block; for the stream tool when the
  file cannot be loaded. Otherwise \<open>get_lego_set_info\<close> returns the decoded body as it is;
  \<open>search_lego_sets\<close> returns the first five elements of the body's
  \<open>results\<close>, the empty list when there are none: a list or a string of at most
  five elements, not a mapping; \<open>get_twitch_user_info\<close> returns a mapping without
  the \<open>error\<close> key; and \<open>get_stream_info\<close> returns the document or a single-key
  mapping of the category.
\<close>

theorem lookup_tools_results:
  "(http_failed (fst (http (lego_set_request cfg set_num) w))
      \<or> isl (fst (fetch_json http (lego_set_request cfg set_num) w))
      \<longrightarrow> fst (get_lego_set_info cfg http set_num w) =
            error_result (''Could not find information for set '' @ set_num)
          \<and> error_only (fst (get_lego_set_info cfg http set_num w)))
   \<and> (fetch_json http (lego_set_request cfg set_num) w = (Inr body, w')
      \<longrightarrow> get_lego_set_info cfg http set_num w = (body, w'))
   \<and> (http_failed (fst (http (lego_search_request cfg query) w))
      \<or> isl (fst (fetch_json http (lego_search_request cfg query) w))
      \<longrightarrow> fst (search_lego_sets cfg http query w) =
            error_result (''Could not find any sets matching '' @ [CHR 0x27] @ query @ [CHR 0x27])
          \<and> error_only (fst (search_lego_sets cfg http query w)))
   \<and> (fetch_json http (lego_search_request cfg query) w = (Inr (JDict d), w')
        \<and> map_of d ''results'' = Some (JList found)
      \<longrightarrow> search_lego_sets cfg http query w = (JList (take 5 found), w'))
   \<and> (fetch_json http (lego_search_request cfg query) w = (Inr (JDict d), w')
        \<and> map_of d ''results'' = None
      \<longrightarrow> search_lego_sets cfg http query w = (JList [], w'))
   \<and> (error_only (fst (search_lego_sets cfg http query w))
      \<or> (\<exists>xs. fst (search_lego_sets cfg http query w) = JList xs \<and> length xs \<le> 5)
      \<or> (\<exists>s. fst (search_lego_sets cfg http query w) = JStr s \<and> length s \<le> 5))
   \<and> (http_failed (fst (http (token_request cfg) w))
      \<or> isl (fst (twitch_lookup cfg http username w))
      \<longrightarrow> error_only (fst (get_twitch_user_info cfg http username w)))
   \<and> (error_only (fst (get_twitch_user_info cfg http username w))
      \<or> (is_mapping (fst (get_twitch_user_info cfg http username w))
          \<and> ''error'' \<notin> set (keys_of (fst (get_twitch_user_info cfg http username w)))))
   \<and> (fs (STREAM_INFO_FILE cfg) = Some (BadFile e)
      \<longrightarrow> get_stream_info cfg category fs =
            (error_result (''Could not retrieve stream information: '' @ exn_str e), fs)
          \<and> error_only (fst (get_stream_info cfg category fs)))
   \<and> (error_only (fst (get_stream_info cfg category fs))
      \<or> fst (get_stream_info cfg category fs) =
           (case fs (STREAM_INFO_FILE cfg) of
              Some (YamlFile doc) \<Rightarrow> doc
            | _ \<Rightarrow> create_default_stream_info)
      \<or> (\<exists>c entry. category = Some c \<and> fst (get_stream_info cfg category fs) = JDict [(c, entry)]))"
  apply (intro conjI)
  subgoal
    using fetch_json_failed [of http "lego_set_request cfg set_num" w]
    by (auto simp: get_lego_set_info_failed error_only_error_result)
  subgoal
    by (simp add: get_lego_set_info_found)
  subgoal
    using fetch_json_failed [of http "lego_search_request cfg query" w]
    by (auto simp: search_lego_sets_failed error_only_error_result)
  subgoal
    by (simp add: search_lego_sets_found)
  subgoal
    by (simp add: search_lego_sets_found)
  subgoal
    by (rule search_lego_sets_shape)
  subgoal
    using fetch_json_failed [of http "token_request cfg" w]
    by (auto simp: get_twitch_user_info_def twitch_lookup_def get_access_token_def bind_io_def isl_def
        error_only_error_result split: prod.splits sum.splits)
  subgoal
    using twitch_result_cases [of cfg http username w] compile_result_shape
    by (auto simp: nine_keys_def)
  subgoal
    by (simp add: get_stream_info_bad_file error_only_error_result)
  subgoal
    by (rule get_stream_info_shape)
  done

lemma lego_service_found:
  "fetch_json lego_service (lego_search_request bot_config ''falcon'') () = (Inr two_sets, ())
   \<and> fetch_json lego_service (lego_set_request bot_config ''75192-1'') () = (Inr two_sets, ())"
  by (simp add: fetch_json_def lego_service_def bind_io_def lift_io_def bindE_def raise_for_status_def)

lemma lego_offline_failed:
  "http_failed (fst (lego_offline (lego_search_request bot_config ''falcon'') ()))
   \<and> http_failed (fst (lego_offline (lego_set_request bot_config ''75192-1'') ()))
   \<and> http_failed (fst (lego_offline (token_request bot_config) ()))"
  by (simp add: http_failed_def lego_offline_def)

text \<open>
  The theorem with the catalogue answering, with every service unreachable, and
  with a stream-info file that cannot be parsed.
\<close>

theorem lookup_tools_results_witness:
  "fetch_json lego_service (lego_search_request bot_config ''falcon'') () = (Inr two_sets, ())
   \<and> get_lego_set_info bot_config lego_service ''75192-1'' () = (two_sets, ())
   \<and> search_lego_sets bot_config lego_service ''falcon'' () =
       (JList
         [JDict [(''set_num'', JStr ''75192-1''), (''name'', JStr ''Millennium Falcon'')],
          JDict [(''set_num'', JStr ''75257-1''), (''name'', JStr ''Millennium Falcon'')]], ())
   \<and> http_failed (fst (lego_offline (lego_search_request bot_config ''falcon'') ()))
   \<and> error_only (fst (get_lego_set_info bot_config lego_offline ''75192-1'' ()))
   \<and> error_only (fst (search_lego_sets bot_config lego_offline ''falcon'' ()))
   \<and> error_only (fst (get_twitch_user_info bot_config lego_offline ''Ann'' ()))
   \<and> error_only (fst (get_stream_info bot_config None
        (no_files(''stream_info.yaml'' \<mapsto> BadFile (Exn ''ScannerError'' ''mapping values are not allowed here'')))))"
proof -
  note online = lookup_tools_results
    [where cfg = bot_config and http = lego_service and set_num = "''75192-1''" and query = "''falcon''"
       and w = "()" and w' = "()" and body = two_sets
       and d = "[(''count'', JInt 2),
      (''results'', JList
         [JDict [(''set_num'', JStr ''75192-1''), (''name'', JStr ''Millennium Falcon'')],
          JDict [(''set_num'', JStr ''75257-1''), (''name'', JStr ''Millennium Falcon'')]])]"
       and found = "[JDict [(''set_num'', JStr ''75192-1''), (''name'', JStr ''Millennium Falcon'')],
          JDict [(''set_num'', JStr ''75257-1''), (''name'', JStr ''Millennium Falcon'')]]"]
  note offline = lookup_tools_results
    [where cfg = bot_config and http = lego_offline and set_num = "''75192-1''" and query = "''falcon''"
       and username = "''Ann''" and w = "()" and category = None
       and fs = "no_files(''stream_info.yaml'' \<mapsto> BadFile (Exn ''ScannerError'' ''mapping values are not allowed here''))"
       and e = "Exn ''ScannerError'' ''mapping values are not allowed here''"]
  from online lego_service_found have found:
    "get_lego_set_info bot_config lego_service ''75192-1'' () = (two_sets, ())
     \<and> search_lego_sets bot_config lego_service ''falcon'' () =
       (JList
         [JDict [(''set_num'', JStr ''75192-1''), (''name'', JStr ''Millennium Falcon'')],
          JDict [(''set_num'', JStr ''75257-1''), (''name'', JStr ''Millennium Falcon'')]], ())"
    by (simp add: two_sets_def)
  have bad: "(no_files(''stream_info.yaml'' \<mapsto> BadFile (Exn ''ScannerError'' ''mapping values are not allowed here'')))
      (STREAM_INFO_FILE bot_config) = Some (BadFile (Exn ''ScannerError'' ''mapping values are not allowed here''))"
    by (simp add: bot_config_def)
  from offline lego_offline_failed bad have failed:
    "error_only (fst (get_lego_set_info bot_config lego_offline ''75192-1'' ()))
     \<and> error_only (fst (search_lego_sets bot_config lego_offline ''falcon'' ()))
     \<and> error_only (fst (get_twitch_user_info bot_config lego_offline ''Ann'' ()))
     \<and> error_only (fst (get_stream_info bot_config None
        (no_files(''stream_info.yaml'' \<mapsto> BadFile (Exn ''ScannerError'' ''mapping values are not allowed here'')))))"
    by (simp add: error_only_error_result)
  from found failed lego_service_found lego_offline_failed show ?thesis
    by simp
qed

text \<open>
  C1 as stated fails for a search that succeeds: the result is the list of the sets
  found, which is not a mapping.
\<close>

theorem search_returns_a_list:
  "search_lego_sets bot_config lego_service ''falcon'' () =
     (JList
       [JDict [(''set_num'', JStr ''75192-1''), (''name'', JStr ''Millennium Falcon'')],
        JDict [(''set_num'', JStr ''75257-1''), (''name'', JStr ''Millennium Falcon'')]], ())
   \<and> \<not> is_mapping (fst (search_lego_sets bot_config lego_service ''falcon'' ()))"
proof -
  have found: "search_lego_sets bot_config lego_service ''falcon'' () =
     (JList
       [JDict [(''set_num'', JStr ''75192-1''), (''name'', JStr ''Millennium Falcon'')],
        JDict [(''set_num'', JStr ''75257-1''), (''name'', JStr ''Millennium Falcon'')]], ())"
    using lego_service_found
    by (simp add: search_lego_sets_found [of _ _ _ _ "[(''count'', JInt 2),
      (''results'', JList
         [JDict [(''set_num'', JStr ''75192-1''), (''name'', JStr ''Millennium Falcon'')],
          JDict [(''set_num'', JStr ''75257-1''), (''name'', JStr ''Millennium Falcon'')]])]" "()"]
        two_sets_def)
  show ?thesis
    unfolding found by (simp add: is_mapping_def)
qed

end
